theory Spec2Isabelle
  imports Complex_Main "HOL-Library.Log_Nat"
begin

section \<open>FleetLink booking and availability engine\<close>

text \<open>
  A shallow embedding of the booking engine of the FleetLink backend: the time utilities
  (\<^verbatim>\<open>utils/timeUtils.js\<close>), the Booking model (\<^verbatim>\<open>models/Booking.js\<close>) and the two
  service classes (\<^verbatim>\<open>services/bookingService.js\<close>, \<^verbatim>\<open>services/vehicleService.js\<close>).

  Conventions of the embedding:
  \<^item> a JavaScript number that carries a duration, a factor or a cost is a \<^typ>\<open>rat\<close>, the
    value of that double; each product, sum and quotient of the source is rounded to the
    nearest double by \<open>fl\<close>, and a decimal literal of the source is the double nearest to
    it;
  \<^item> an instant (the time value of a valid \<^verbatim>\<open>Date\<close>) is an \<^typ>\<open>int\<close>, in milliseconds
    since the epoch; an \<^verbatim>\<open>Invalid Date\<close> is \<open>None\<close> of \<open>int option\<close>;
  \<^item> a string is a \<^typ>\<open>string\<close>, one \<^typ>\<open>char\<close> per code unit (code units up to 255);
  \<^item> an optional property of an argument object is an \<open>option\<close>, \<open>None\<close> being
    \<^verbatim>\<open>undefined\<close>;
  \<^item> a thrown error is the \<open>Inl\<close> of a sum type; the collections of the database are
    lists that are passed in and returned.
\<close>

subsection \<open>Errors\<close>

text \<open>
  The source throws \<^verbatim>\<open>Error\<close> and \<^verbatim>\<open>AppError(message, statusCode, type)\<close>. One constructor
  stands for each distinct failure of the engine (the message decides the kind where the
  source reuses the type \<^verbatim>\<open>'ValidationError'\<close>); \<open>ServerError\<close> is the status-500 \<^verbatim>\<open>AppError\<close>
  that the \<^verbatim>\<open>catch\<close> blocks of the services build from any error that is not an \<^verbatim>\<open>AppError\<close>.
\<close>

datatype status = Pending | Confirmed | In_progress | Completed | Cancelled

datatype error =
    InvalidLocationCode
  | InvalidDuration
  | VehicleNotFound
  | VehicleInactive
  | BookingNotFound
  | BookingConflict
  | InvalidStatusTransition status status
  | NotCancellable
  | NotDeletable
  | ServerError

subsection \<open>Numbers and strings of the host language\<close>

text \<open>The decimal digits, and the white space that \<^verbatim>\<open>parseInt\<close> and \<^verbatim>\<open>trim\<close> strip
  (TAB, LF, VT, FF, CR, SP, NBSP among the code units up to 255).\<close>

definition isDigit :: "char \<Rightarrow> bool" where
  "isDigit c = (48 \<le> (of_char c :: nat) \<and> (of_char c :: nat) \<le> 57)"

definition isWhiteSpace :: "char \<Rightarrow> bool" where
  "isWhiteSpace c = ((of_char c :: nat) \<in> {9, 10, 11, 12, 13, 32, 160})"

definition digitValue :: "char \<Rightarrow> int" where
  "digitValue c = int (of_char c) - 48"

definition digitsValue :: "string \<Rightarrow> int" where
  "digitsValue ds = foldl (\<lambda>acc c. acc * 10 + digitValue c) 0 ds"

text \<open>\<^verbatim>\<open>parseInt(s, 10)\<close>: leading white space is skipped, one sign is read, then the
  longest run of digits; whatever follows the digits is ignored. \<open>None\<close> is \<^verbatim>\<open>NaN\<close>.\<close>

definition parseInt :: "string \<Rightarrow> int option" where
  "parseInt s =
     (let t = dropWhile isWhiteSpace s;
          sign = (case t of c # _ \<Rightarrow> if c = CHR ''-'' then - 1 else 1 | [] \<Rightarrow> (1::int));
          u = (case t of c # r \<Rightarrow> if c = CHR ''-'' \<or> c = CHR ''+'' then r else t | [] \<Rightarrow> t);
          ds = takeWhile isDigit u
      in if ds = [] then None else Some (sign * digitsValue ds))"

text \<open>\<^verbatim>\<open>String.prototype.trim\<close>.\<close>

definition trim :: "string \<Rightarrow> string" where
  "trim s = rev (dropWhile isWhiteSpace (rev (dropWhile isWhiteSpace s)))"

text \<open>
  Double precision. \<open>ilog2 x\<close> is the binary exponent of a positive \<open>x\<close> (the integer \<open>e\<close>
  with \<open>2 ^ e \<le> x < 2 ^ (e + 1)\<close>, found from the bit lengths of numerator and
  denominator). \<open>fl x\<close> is the double nearest to \<open>x\<close>: a multiple of the spacing
  \<open>2 ^ (e - 52)\<close> of the doubles of that exponent (of \<open>2 ^ (- 1074)\<close> below the normal
  range), a tie going to the even multiple. Overflow to infinity is left out: the code
  multiplies unbounded numbers only in \<^verbatim>\<open>calculateEndTime\<close>, where a result beyond the range
  of time values, finite or not, is an invalid date.
\<close>

definition pow2 :: "int \<Rightarrow> rat" where
  "pow2 k = (if 0 \<le> k then 2 ^ nat k else 1 / 2 ^ nat (- k))"

definition ilog2 :: "rat \<Rightarrow> int" where
  "ilog2 x =
     (case quotient_of x of
        (p, q) \<Rightarrow> let k = bitlen p - bitlen q in if pow2 k \<le> x then k else k - 1)"

definition roundHalfEven :: "rat \<Rightarrow> int" where
  "roundHalfEven y =
     (let f = \<lfloor>y\<rfloor>; r = y - of_int f
      in if r < 1 / 2 then f else if r > 1 / 2 then f + 1 else if even f then f else f + 1)"

definition fl :: "rat \<Rightarrow> rat" where
  "fl x =
     (if x = 0 then 0
      else let e = max (ilog2 \<bar>x\<bar>) (- 1022);
               q = pow2 (e - 52)
           in of_int (roundHalfEven (x / q)) * q)"

text \<open>\<^verbatim>\<open>Math.round(x * 100) / 100\<close>: the product and the quotient are rounded to doubles;
  \<^verbatim>\<open>Math.round\<close> gives the nearest integer, a half going upwards.\<close>

definition round2 :: "rat \<Rightarrow> rat" where
  "round2 x = fl (of_int \<lfloor>fl (x * 100) + 1 / 2\<rfloor> / 100)"

text \<open>A number that may be \<^verbatim>\<open>NaN\<close> (the product of a number and a value that is not one).\<close>

datatype jsnum = Num rat | NaN

fun js_mul :: "jsnum \<Rightarrow> jsnum \<Rightarrow> jsnum" where
  "js_mul (Num a) (Num b) = Num (fl (a * b))"
| "js_mul _ _ = NaN"

fun js_add :: "jsnum \<Rightarrow> jsnum \<Rightarrow> jsnum" where
  "js_add (Num a) (Num b) = Num (fl (a + b))"
| "js_add _ _ = NaN"

fun js_round2 :: "jsnum \<Rightarrow> jsnum" where
  "js_round2 (Num a) = Num (round2 a)"
| "js_round2 NaN = NaN"

text \<open>\<^verbatim>\<open>new Date(t)\<close> for a number \<open>t\<close>: the time value is truncated towards zero, and a
  value beyond 8.64e15 ms gives an \<^verbatim>\<open>Invalid Date\<close>.\<close>

definition js_trunc :: "rat \<Rightarrow> int" where
  "js_trunc x = (if 0 \<le> x then \<lfloor>x\<rfloor> else \<lceil>x\<rceil>)"

definition timeClip :: "rat \<Rightarrow> int option" where
  "timeClip t = (if \<bar>t\<bar> > 8640000000000000 then None else Some (js_trunc t))"

subsection \<open>Time utilities\<close>

text \<open>
  \<^verbatim>\<open>calculateEstimatedDuration(fromPincode, toPincode)\<close>. Both arguments are strings here
  (\<^verbatim>\<open>toString\<close> is then the identity). Either \<^verbatim>\<open>throw\<close> is caught and thrown again with
  a longer message by the function's own \<^verbatim>\<open>catch\<close>: both are \<open>InvalidLocationCode\<close>.
\<close>

definition calculateEstimatedDuration :: "string \<Rightarrow> string \<Rightarrow> error + rat" where
  "calculateEstimatedDuration fromPincode toPincode =
     (case (parseInt fromPincode, parseInt toPincode) of
        (Some from, Some to) \<Rightarrow>
          if from < 100000 \<or> from > 999999 \<or> to < 100000 \<or> to > 999999
          then Inl InvalidLocationCode
          else let duration = \<bar>to - from\<bar> mod 24
               in Inr (max (of_int duration) (1 / 2))
      | _ \<Rightarrow> Inl InvalidLocationCode)"

text \<open>
  \<^verbatim>\<open>calculateEndTime(startTime, durationHours)\<close>, for a start given as a time value and a
  duration given as a number. The result is a \<^verbatim>\<open>Date\<close>, which is invalid (\<open>None\<close>) when the
  sum leaves the range of time values.
\<close>

definition calculateEndTime :: "int \<Rightarrow> rat \<Rightarrow> error + int option" where
  "calculateEndTime startTime durationHours =
     (case timeClip (of_int startTime) of
        None \<Rightarrow> Inl InvalidDuration
      | Some start \<Rightarrow>
          if durationHours \<le> 0 then Inl InvalidDuration
          else let durationMs = fl (fl (fl (durationHours * 60) * 60) * 1000)
               in Inr (timeClip (fl (of_int start + durationMs))))"

text \<open>
  \<^verbatim>\<open>calculateEnhancedDuration(fromPincode, toPincode, options)\<close>. The read
  \<^verbatim>\<open>vehicleFactors[options.vehicleType]\<close> of the object literal finds an own property, or a
  member inherited from \<^verbatim>\<open>Object.prototype\<close> (a function or an object: truthy, and \<^verbatim>\<open>NaN\<close>
  as a factor), or nothing.
\<close>

record options =
  opt_vehicleType :: "string option"
  opt_trafficFactor :: "rat option"
  opt_includeLoadingTime :: bool

datatype property = Own rat | Inherited | Undefined

definition objectPrototypeKeys :: "string list" where
  "objectPrototypeKeys =
     [''constructor'', ''hasOwnProperty'', ''isPrototypeOf'', ''propertyIsEnumerable'',
      ''toLocaleString'', ''toString'', ''valueOf'', ''__proto__'', ''__defineGetter__'',
      ''__defineSetter__'', ''__lookupGetter__'', ''__lookupSetter__'']"

definition vehicleFactors :: "string \<Rightarrow> property" where
  "vehicleFactors k =
     (if k = ''motorcycle'' then Own (fl (8 / 10))
      else if k = ''pickup'' then Own 1
      else if k = ''van'' then Own (fl (11 / 10))
      else if k = ''truck'' then Own (fl (13 / 10))
      else if k = ''trailer'' then Own (15 / 10)
      else if k = ''other'' then Own 1
      else if k \<in> set objectPrototypeKeys then Inherited
      else Undefined)"

definition calculateEnhancedDuration :: "string \<Rightarrow> string \<Rightarrow> options \<Rightarrow> error + jsnum" where
  "calculateEnhancedDuration fromPincode toPincode opts =
     (case calculateEstimatedDuration fromPincode toPincode of
        Inl e \<Rightarrow> Inl e
      | Inr baseDuration \<Rightarrow>
          let enhancedDuration = Num baseDuration;
              vehicleFactor =
                (case opt_vehicleType opts of
                   None \<Rightarrow> Num 1
                 | Some k \<Rightarrow>
                     (case vehicleFactors k of
                        Own f \<Rightarrow> if f = 0 then Num 1 else Num f
                      | Inherited \<Rightarrow> NaN
                      | Undefined \<Rightarrow> Num 1));
              enhancedDuration = js_mul enhancedDuration vehicleFactor;
              trafficFactor =
                (case opt_trafficFactor opts of
                   None \<Rightarrow> fl (12 / 10)
                 | Some t \<Rightarrow> if t = 0 then fl (12 / 10) else t);
              enhancedDuration =
                (if trafficFactor \<ge> 1 \<and> trafficFactor \<le> 3
                 then js_mul enhancedDuration (Num trafficFactor)
                 else enhancedDuration);
              enhancedDuration =
                (if opt_includeLoadingTime opts
                 then let loadingTime = min (fl (baseDuration * fl (1 / 10))) 2
                      in js_add enhancedDuration (Num (max loadingTime (1 / 2)))
                 else enhancedDuration)
          in Inr (js_round2 enhancedDuration))"

subsection \<open>Data model\<close>

text \<open>The documents of the two collections, with the paths of \<^verbatim>\<open>vehicleSchema\<close> and
  \<^verbatim>\<open>bookingSchema\<close>; \<open>v_id\<close> and \<open>b_id\<close> are the \<^verbatim>\<open>_id\<close>, an opaque identifier, and
  \<open>b_notes\<close> is the path \<^verbatim>\<open>notes\<close>.\<close>

record vehicle =
  v_id :: nat
  v_name :: string
  capacityKg :: int
  tyres :: int
  isActive :: bool
  vehicleType :: string
  v_createdAt :: int

record booking =
  b_id :: nat
  vehicleId :: nat
  customerId :: string
  fromPincode :: string
  toPincode :: string
  startTime :: int
  endTime :: int
  estimatedRideDurationHours :: rat
  status :: status
  totalDistance :: "rat option"
  estimatedCost :: "rat option"
  actualStartTime :: "int option"
  actualEndTime :: "int option"
  b_notes :: "string option"
  b_createdAt :: int
  b_updatedAt :: int

record database =
  vehicles :: "vehicle list"
  bookings :: "booking list"

text \<open>What a call takes from its environment: the reading of the clock (one reading
  for the whole call) and the \<^verbatim>\<open>_id\<close> that \<^verbatim>\<open>new Booking\<close> generates.\<close>

record env =
  env_now :: int
  env_newId :: nat

text \<open>\<^verbatim>\<open>Model.findById\<close>.\<close>

definition findVehicleById :: "vehicle list \<Rightarrow> nat \<Rightarrow> vehicle option" where
  "findVehicleById vs i = find (\<lambda>v. v_id v = i) vs"

definition findBookingById :: "booking list \<Rightarrow> nat \<Rightarrow> booking option" where
  "findBookingById bs i = find (\<lambda>b. b_id b = i) bs"

subsection \<open>The Booking model\<close>

text \<open>\<^verbatim>\<open>bookingSchema.methods.overlapsWithTimeRange\<close> and
  \<^verbatim>\<open>bookingSchema.methods.canBeCancelled\<close>.\<close>

definition overlapsWithTimeRange :: "booking \<Rightarrow> int \<Rightarrow> int \<Rightarrow> bool" where
  "overlapsWithTimeRange b start end =
     (status b \<noteq> Cancelled \<and> startTime b < end \<and> endTime b > start)"

definition canBeCancelled :: "int \<Rightarrow> booking \<Rightarrow> bool" where
  "canBeCancelled now b =
     (let oneHourFromNow = now + 60 * 60 * 1000
      in status b \<in> set [Pending, Confirmed] \<and> startTime b > oneHourFromNow)"

text \<open>\<^verbatim>\<open>bookingSchema.statics.findOverlappingBookings\<close>: the documents that match the
  query, in the order of the collection.\<close>

definition findOverlappingBookings ::
  "booking list \<Rightarrow> nat \<Rightarrow> int \<Rightarrow> int \<Rightarrow> nat option \<Rightarrow> booking list" where
  "findOverlappingBookings bs vid start end excludeBookingId =
     filter (\<lambda>b. vehicleId b = vid
                \<and> status b \<notin> set [Cancelled, Completed]
                \<and> (startTime b < end \<and> endTime b > start)
                \<and> (case excludeBookingId of None \<Rightarrow> True | Some x \<Rightarrow> b_id b \<noteq> x)) bs"

text \<open>The validators of \<^verbatim>\<open>bookingSchema\<close> that a \<^verbatim>\<open>save\<close> runs on a document whose paths
  have been cast (strings are trimmed by their setters when the document is built).\<close>

definition isPincodeFormat :: "string \<Rightarrow> bool" where
  "isPincodeFormat s = (length s = 6 \<and> list_all isDigit s)"

definition validateBooking :: "int \<Rightarrow> booking \<Rightarrow> bool" where
  "validateBooking now b =
     (customerId b \<noteq> [] \<and> length (customerId b) \<le> 100
      \<and> isPincodeFormat (fromPincode b) \<and> isPincodeFormat (toPincode b)
      \<and> startTime b \<ge> now - 5 * 60 * 1000
      \<and> endTime b > startTime b
      \<and> estimatedRideDurationHours b \<ge> fl (1 / 10) \<and> estimatedRideDurationHours b \<le> 168
      \<and> (case totalDistance b of None \<Rightarrow> True | Some d \<Rightarrow> d \<ge> 0)
      \<and> (case estimatedCost b of None \<Rightarrow> True | Some c \<Rightarrow> c \<ge> 0)
      \<and> (case (actualEndTime b, actualStartTime b) of
            (Some e, Some s) \<Rightarrow> e \<ge> s | _ \<Rightarrow> True)
      \<and> (case b_notes b of None \<Rightarrow> True | Some n \<Rightarrow> length n \<le> 1000))"

text \<open>The first \<^verbatim>\<open>pre('save')\<close> hook: normalisation.\<close>

definition padStart6 :: "string \<Rightarrow> string" where
  "padStart6 s = replicate (6 - length s) (CHR ''0'') @ s"

definition normalise :: "booking \<Rightarrow> booking" where
  "normalise b =
     (let b = (if fromPincode b \<noteq> [] then b\<lparr>fromPincode := padStart6 (fromPincode b)\<rparr> else b);
          b = (if toPincode b \<noteq> [] then b\<lparr>toPincode := padStart6 (toPincode b)\<rparr> else b)
      in if estimatedRideDurationHours b = 0
         then b\<lparr>estimatedRideDurationHours :=
                  round2 (fl (fl (of_int (endTime b - startTime b)) / (1000 * 60 * 60)))\<rparr>
         else b)"

text \<open>The second \<^verbatim>\<open>pre('save')\<close> hook, for a new document: the vehicle must exist and be
  active, and no other booking may overlap. It passes an \<^verbatim>\<open>Error\<close> to \<^verbatim>\<open>next\<close>, which is
  not an \<^verbatim>\<open>AppError\<close>.\<close>

definition businessValidation :: "database \<Rightarrow> booking \<Rightarrow> bool" where
  "businessValidation db b =
     (if status b = Cancelled then True
      else (case findVehicleById (vehicles db) (vehicleId b) of
              None \<Rightarrow> False
            | Some vehicle \<Rightarrow>
                isActive vehicle
                \<and> findOverlappingBookings (bookings db) (vehicleId b) (startTime b) (endTime b)
                     (Some (b_id b)) = []))"

text \<open>The insert that ends a \<^verbatim>\<open>save\<close>: the timestamps are set, and an \<^verbatim>\<open>_id\<close> that is
  already in the collection is refused (the unique index on \<^verbatim>\<open>_id\<close>).\<close>

definition insertBooking :: "int \<Rightarrow> booking \<Rightarrow> database \<Rightarrow> database option" where
  "insertBooking now b db =
     (if b_id b \<in> set (map b_id (bookings db)) then None
      else Some (db\<lparr>bookings := bookings db @ [b\<lparr>b_createdAt := now, b_updatedAt := now\<rparr>]\<rparr>))"

text \<open>\<^verbatim>\<open>booking.save()\<close> of a new document: validation, the two hooks, the insert.
  \<open>None\<close> is a rejected promise; the collection is then as it was.\<close>

definition save :: "int \<Rightarrow> booking \<Rightarrow> database \<Rightarrow> database option" where
  "save now b db =
     (if \<not> validateBooking now b then None
      else let b = normalise b
           in if \<not> businessValidation db b then None
              else insertBooking now b db)"

subsection \<open>BookingService\<close>

text \<open>An end time as a caller may supply it: a \<^verbatim>\<open>Date\<close> (or a date string that reads as
  that instant), a number of milliseconds, or the empty string. The number 0 and the
  empty string are falsy; a number is cast to the date of that time value.\<close>

datatype timeArg = DateObject int | Milliseconds int | EmptyString

fun truthy :: "timeArg \<Rightarrow> bool" where
  "truthy (DateObject t) = True"
| "truthy (Milliseconds n) = (n \<noteq> 0)"
| "truthy EmptyString = False"

fun castDate :: "timeArg \<Rightarrow> int option" where
  "castDate (DateObject t) = timeClip (of_int t)"
| "castDate (Milliseconds n) = timeClip (of_int n)"
| "castDate EmptyString = None"

text \<open>The argument of \<^verbatim>\<open>createBooking\<close>, with the paths of the schema that a caller may
  set. The duration and the end time are consulted through \<^verbatim>\<open>||\<close>: a duration of \<open>0\<close> and
  a falsy end time count as not supplied.\<close>

record bookingData =
  bd_vehicleId :: nat
  bd_customerId :: string
  bd_fromPincode :: string
  bd_toPincode :: string
  bd_startTime :: int
  bd_endTime :: "timeArg option"
  bd_estimatedRideDurationHours :: "rat option"
  bd_status :: "status option"
  bd_totalDistance :: "rat option"
  bd_estimatedCost :: "rat option"
  bd_actualStartTime :: "int option"
  bd_actualEndTime :: "int option"
  bd_notes :: "string option"

text \<open>\<^verbatim>\<open>estimatedRideDurationHours || calculateEstimatedDuration(fromPincode, toPincode)\<close>
  and \<^verbatim>\<open>endTime || calculateEndTime(startTime, finalDuration)\<close>.\<close>

definition finalDuration :: "bookingData \<Rightarrow> error + rat" where
  "finalDuration bookingData =
     (case bd_estimatedRideDurationHours bookingData of
        Some d \<Rightarrow>
          if d \<noteq> 0 then Inr d
          else calculateEstimatedDuration (bd_fromPincode bookingData) (bd_toPincode bookingData)
      | None \<Rightarrow>
          calculateEstimatedDuration (bd_fromPincode bookingData) (bd_toPincode bookingData))"

definition finalEndTime :: "bookingData \<Rightarrow> rat \<Rightarrow> error + int option" where
  "finalEndTime bookingData duration =
     (case bd_endTime bookingData of
        Some e \<Rightarrow>
          if truthy e then Inr (castDate e)
          else calculateEndTime (bd_startTime bookingData) duration
      | None \<Rightarrow> calculateEndTime (bd_startTime bookingData) duration)"

text \<open>\<^verbatim>\<open>new Booking({...bookingData, endTime, estimatedRideDurationHours, status})\<close>.\<close>

definition newBooking :: "nat \<Rightarrow> bookingData \<Rightarrow> int \<Rightarrow> rat \<Rightarrow> booking" where
  "newBooking i bookingData end duration =
     \<lparr> b_id = i,
       vehicleId = bd_vehicleId bookingData,
       customerId = trim (bd_customerId bookingData),
       fromPincode = trim (bd_fromPincode bookingData),
       toPincode = trim (bd_toPincode bookingData),
       startTime = bd_startTime bookingData,
       endTime = end,
       estimatedRideDurationHours = duration,
       status = Confirmed,
       totalDistance = bd_totalDistance bookingData,
       estimatedCost = bd_estimatedCost bookingData,
       actualStartTime = bd_actualStartTime bookingData,
       actualEndTime = bd_actualEndTime bookingData,
       b_notes = map_option trim (bd_notes bookingData),
       b_createdAt = 0,
       b_updatedAt = 0 \<rparr>"

text \<open>
  \<^verbatim>\<open>BookingService.createBooking\<close>. The result is the outcome of the promise and the
  database after the call. An error of the time utilities, a cast error of the query (an
  invalid end date) and a rejected \<^verbatim>\<open>save\<close> are not \<^verbatim>\<open>AppError\<close>s: the \<^verbatim>\<open>catch\<close> block turns
  them into the status-500 error. The value returned is what \<^verbatim>\<open>Booking.findById\<close> reads
  back (\<open>None\<close> is \<^verbatim>\<open>null\<close>); the vehicle details that \<^verbatim>\<open>populate\<close> puts in place of the
  vehicle reference are left out.
\<close>

definition createBooking ::
  "env \<Rightarrow> bookingData \<Rightarrow> database \<Rightarrow> (error + booking option) \<times> database" where
  "createBooking e bookingData db =
     (case findVehicleById (vehicles db) (bd_vehicleId bookingData) of
        None \<Rightarrow> (Inl VehicleNotFound, db)
      | Some vehicle \<Rightarrow>
          if \<not> isActive vehicle then (Inl VehicleInactive, db)
          else
            (case finalDuration bookingData of
               Inl _ \<Rightarrow> (Inl ServerError, db)
             | Inr duration \<Rightarrow>
                 (case finalEndTime bookingData duration of
                    Inl _ \<Rightarrow> (Inl ServerError, db)
                  | Inr None \<Rightarrow> (Inl ServerError, db)
                  | Inr (Some end) \<Rightarrow>
                      if findOverlappingBookings (bookings db) (bd_vehicleId bookingData)
                           (bd_startTime bookingData) end None \<noteq> []
                      then (Inl BookingConflict, db)
                      else
                        let booking = newBooking (env_newId e) bookingData end duration
                        in (case save (env_now e) booking db of
                              None \<Rightarrow> (Inl ServerError, db)
                            | Some db' \<Rightarrow>
                                (Inr (findBookingById (bookings db') (b_id booking)), db')))))"

text \<open>The argument of \<^verbatim>\<open>updateBookingStatus\<close>, and the \<^verbatim>\<open>updateFields\<close> it builds.\<close>

record updateData =
  ud_status :: status
  ud_notes :: "string option"

record updateFields =
  uf_status :: status
  uf_notes :: "string option"
  uf_actualStartTime :: "int option"
  uf_actualEndTime :: "int option"

definition validTransitions :: "status \<Rightarrow> status list" where
  "validTransitions s =
     (case s of
        Pending \<Rightarrow> [Confirmed, Cancelled]
      | Confirmed \<Rightarrow> [In_progress, Cancelled]
      | In_progress \<Rightarrow> [Completed, Cancelled]
      | Completed \<Rightarrow> []
      | Cancelled \<Rightarrow> [])"

text \<open>\<^verbatim>\<open>Booking.findByIdAndUpdate(bookingId, updateFields, {new: true, runValidators:
  true})\<close>: the paths of the update are cast (notes are trimmed) and validated (the length
  of the notes is the one validator that can fail on these paths), then the first
  document with that \<^verbatim>\<open>_id\<close> gets them, and a new \<^verbatim>\<open>updatedAt\<close>. \<open>None\<close> is a rejected
  promise.\<close>

definition applyUpdate :: "int \<Rightarrow> updateFields \<Rightarrow> booking \<Rightarrow> booking" where
  "applyUpdate now uf b =
     b\<lparr> status := uf_status uf,
        b_notes := (case uf_notes uf of None \<Rightarrow> b_notes b | Some n \<Rightarrow> Some (trim n)),
        actualStartTime :=
          (case uf_actualStartTime uf of None \<Rightarrow> actualStartTime b | Some t \<Rightarrow> Some t),
        actualEndTime :=
          (case uf_actualEndTime uf of None \<Rightarrow> actualEndTime b | Some t \<Rightarrow> Some t),
        b_updatedAt := now \<rparr>"

fun updateFirst :: "nat \<Rightarrow> (booking \<Rightarrow> booking) \<Rightarrow> booking list \<Rightarrow> booking list" where
  "updateFirst i f [] = []"
| "updateFirst i f (b # bs) = (if b_id b = i then f b # bs else b # updateFirst i f bs)"

definition findByIdAndUpdate ::
  "int \<Rightarrow> nat \<Rightarrow> updateFields \<Rightarrow> database \<Rightarrow> (booking option \<times> database) option" where
  "findByIdAndUpdate now i uf db =
     (if (case uf_notes uf of None \<Rightarrow> False | Some n \<Rightarrow> length (trim n) > 1000) then None
      else let db' = db\<lparr>bookings := updateFirst i (applyUpdate now uf) (bookings db)\<rparr>
           in Some (findBookingById (bookings db') i, db'))"

text \<open>
  \<^verbatim>\<open>BookingService.updateBookingStatus\<close>, for a requested status that is one of the five
  (as the route's validation ensures). \<^verbatim>\<open>updatedBooking.toObject()\<close> on \<^verbatim>\<open>null\<close> is a
  \<^verbatim>\<open>TypeError\<close>, hence the status-500 error.
\<close>

definition updateBookingStatus ::
  "int \<Rightarrow> nat \<Rightarrow> updateData \<Rightarrow> database \<Rightarrow> (error + booking) \<times> database" where
  "updateBookingStatus now bookingId updateData db =
     (case findBookingById (bookings db) bookingId of
        None \<Rightarrow> (Inl BookingNotFound, db)
      | Some currentBooking \<Rightarrow>
          let allowedStatuses = validTransitions (status currentBooking)
          in if ud_status updateData \<notin> set allowedStatuses
             then (Inl (InvalidStatusTransition (status currentBooking) (ud_status updateData)), db)
             else if ud_status updateData = Cancelled \<and> \<not> canBeCancelled now currentBooking
             then (Inl NotCancellable, db)
             else
               let updateFields =
                     \<lparr> uf_status = ud_status updateData,
                       uf_notes = (case ud_notes updateData of
                                     None \<Rightarrow> None
                                   | Some n \<Rightarrow> if n \<noteq> [] then Some n else None),
                       uf_actualStartTime =
                         (if ud_status updateData = In_progress
                               \<and> actualStartTime currentBooking = None
                          then Some now else None),
                       uf_actualEndTime =
                         (if ud_status updateData = Completed
                               \<and> actualEndTime currentBooking = None
                          then Some now else None) \<rparr>
               in (case findByIdAndUpdate now bookingId updateFields db of
                     None \<Rightarrow> (Inl ServerError, db)
                   | Some (None, db') \<Rightarrow> (Inl ServerError, db')
                   | Some (Some updatedBooking, db') \<Rightarrow> (Inr updatedBooking, db')))"

text \<open>
  \<^verbatim>\<open>BookingService.cancelBooking\<close>. The clock is read once by its own
  \<^verbatim>\<open>canBeCancelled\<close> (\<open>now\<close>) and again inside \<^verbatim>\<open>updateBookingStatus\<close> (\<open>now'\<close>).
  The default of \<open>reason\<close> applies when the argument is \<^verbatim>\<open>undefined\<close>.
\<close>

definition cancelBooking ::
  "int \<Rightarrow> int \<Rightarrow> nat \<Rightarrow> string option \<Rightarrow> database \<Rightarrow> (error + booking) \<times> database" where
  "cancelBooking now now' bookingId reason db =
     (case findBookingById (bookings db) bookingId of
        None \<Rightarrow> (Inl BookingNotFound, db)
      | Some booking \<Rightarrow>
          if \<not> canBeCancelled now booking then (Inl NotCancellable, db)
          else updateBookingStatus now' bookingId
                 \<lparr> ud_status = Cancelled,
                   ud_notes = Some (case reason of None \<Rightarrow> ''Cancelled by user'' | Some r \<Rightarrow> r) \<rparr>
                 db)"

subsection \<open>VehicleService\<close>

record searchParams =
  sp_capacityRequired :: int
  sp_fromPincode :: string
  sp_toPincode :: string
  sp_startTime :: int
  sp_vehicleType :: "string option"
  sp_includeEnhancedDuration :: bool

text \<open>An element of \<^verbatim>\<open>availableVehicles\<close>: the vehicle, spread, and four more properties
  (\<open>None\<close> for an enhanced duration that is \<^verbatim>\<open>null\<close>).\<close>

record availableVehicle = vehicle +
  isAvailable :: bool
  av_estimatedRideDurationHours :: rat
  enhancedDurationHours :: "jsnum option"
  estimatedEndTime :: int

text \<open>The object that \<^verbatim>\<open>findAvailableVehicles\<close> returns. \<open>None\<close> for \<open>totalAvailable\<close>,
  \<open>totalSuitable\<close> or \<open>message\<close> is a property that the object does not have.\<close>

record searchResult =
  availableVehicles :: "availableVehicle list"
  sr_estimatedRideDurationHours :: rat
  totalAvailable :: "nat option"
  totalSuitable :: "nat option"
  sr_endTime :: "int option"
  message :: "string option"

text \<open>\<^verbatim>\<open>Vehicle.find(vehicleQuery)\<close>: the vehicle type is part of the query when it is
  truthy.\<close>

definition findSuitableVehicles :: "vehicle list \<Rightarrow> int \<Rightarrow> string option \<Rightarrow> vehicle list" where
  "findSuitableVehicles vs capacityRequired vehicleTypeFilter =
     filter (\<lambda>v. capacityKg v \<ge> capacityRequired \<and> isActive v
                \<and> (case vehicleTypeFilter of
                      None \<Rightarrow> True
                    | Some t \<Rightarrow> t = [] \<or> vehicleType v = t)) vs"

text \<open>The body of the \<^verbatim>\<open>map\<close> callback: \<open>Inr None\<close> is the \<^verbatim>\<open>null\<close> of a vehicle that is
  booked.\<close>

definition checkAvailability ::
  "database \<Rightarrow> searchParams \<Rightarrow> rat \<Rightarrow> int \<Rightarrow> vehicle \<Rightarrow> error + availableVehicle option" where
  "checkAvailability db sp duration endT vehicle =
     (let overlappingBookings =
            findOverlappingBookings (bookings db) (v_id vehicle) (sp_startTime sp) endT None
      in if overlappingBookings = []
         then (case (if sp_includeEnhancedDuration sp
                     then (case calculateEnhancedDuration (sp_fromPincode sp) (sp_toPincode sp)
                                  \<lparr> opt_vehicleType = Some (vehicleType vehicle),
                                    opt_trafficFactor = Some (12 / 10),
                                    opt_includeLoadingTime = True \<rparr> of
                             Inl e \<Rightarrow> Inl e
                           | Inr d \<Rightarrow> Inr (Some d))
                     else Inr None) of
                 Inl e \<Rightarrow> Inl e
               | Inr enhancedDuration \<Rightarrow>
                   Inr (Some (vehicle.extend vehicle
                          (availableVehicle.fields True duration enhancedDuration endT))))
         else Inr None)"

text \<open>\<^verbatim>\<open>Promise.all\<close>: the values in order, or the first rejection.\<close>

fun promiseAll :: "(error + 'a) list \<Rightarrow> error + 'a list" where
  "promiseAll [] = Inr []"
| "promiseAll (Inl e # _) = Inl e"
| "promiseAll (Inr x # ps) = (case promiseAll ps of Inl e \<Rightarrow> Inl e | Inr xs \<Rightarrow> Inr (x # xs))"

text \<open>The comparator of the final \<^verbatim>\<open>sort\<close> (the differences are exact here; the sort uses
  their sign, which the rounding of a double keeps), and \<^verbatim>\<open>Array.prototype.sort\<close> as a
  stable insertion sort: an element goes before the first one it does not compare
  greater than.\<close>

definition compareVehicles :: "'a vehicle_scheme \<Rightarrow> 'a vehicle_scheme \<Rightarrow> int" where
  "compareVehicles a b =
     (if capacityKg a \<noteq> capacityKg b then capacityKg a - capacityKg b
      else v_createdAt b - v_createdAt a)"

fun insertBy :: "('a \<Rightarrow> 'a \<Rightarrow> int) \<Rightarrow> 'a \<Rightarrow> 'a list \<Rightarrow> 'a list" where
  "insertBy cmp x [] = [x]"
| "insertBy cmp x (y # ys) = (if cmp x y \<le> 0 then x # y # ys else y # insertBy cmp x ys)"

definition sortBy :: "('a \<Rightarrow> 'a \<Rightarrow> int) \<Rightarrow> 'a list \<Rightarrow> 'a list" where
  "sortBy cmp xs = foldr (insertBy cmp) xs []"

text \<open>
  \<^verbatim>\<open>VehicleService.findAvailableVehicles\<close>. Its \<^verbatim>\<open>catch\<close> block turns every error into the
  status-500 error; an invalid end date is a cast error of the first overlap query.
\<close>

definition findAvailableVehicles :: "database \<Rightarrow> searchParams \<Rightarrow> error + searchResult" where
  "findAvailableVehicles db sp =
     (case calculateEstimatedDuration (sp_fromPincode sp) (sp_toPincode sp) of
        Inl _ \<Rightarrow> Inl ServerError
      | Inr duration \<Rightarrow>
          (case calculateEndTime (sp_startTime sp) duration of
             Inl _ \<Rightarrow> Inl ServerError
           | Inr endT \<Rightarrow>
               let suitableVehicles =
                     findSuitableVehicles (vehicles db) (sp_capacityRequired sp) (sp_vehicleType sp)
               in if length suitableVehicles = 0
                  then Inr \<lparr> availableVehicles = [],
                             sr_estimatedRideDurationHours = duration,
                             totalAvailable = None,
                             totalSuitable = None,
                             sr_endTime = endT,
                             message = Some ''No vehicles found matching capacity requirements'' \<rparr>
                  else
                    (case endT of
                       None \<Rightarrow> Inl ServerError
                     | Some endT \<Rightarrow>
                         (case promiseAll (map (checkAvailability db sp duration endT)
                                             suitableVehicles) of
                            Inl _ \<Rightarrow> Inl ServerError
                          | Inr availabilityResults \<Rightarrow>
                              let available = List.map_filter (\<lambda>r. r) availabilityResults;
                                  sorted = sortBy compareVehicles available
                              in Inr \<lparr> availableVehicles = sorted,
                                        sr_estimatedRideDurationHours = duration,
                                        totalAvailable = Some (length sorted),
                                        totalSuitable = Some (length suitableVehicles),
                                        sr_endTime = Some endT,
                                        message = None \<rparr>))))"

subsection \<open>Concurrent calls of createBooking\<close>

text \<open>
  \<^verbatim>\<open>createBooking\<close> is an \<^verbatim>\<open>async\<close> function: it runs without interruption from one
  \<^verbatim>\<open>await\<close> to the next, and at each \<^verbatim>\<open>await\<close> of a database operation other calls may
  run. A call in progress is at one of these points:
  \<^item> \<open>Start\<close>: before \<^verbatim>\<open>await Vehicle.findById\<close>;
  \<^item> \<open>Checked\<close>: the vehicle was found active and the window is resolved, before
    \<^verbatim>\<open>await Booking.findOverlappingBookings\<close>;
  \<^item> \<open>Saving\<close>: the document is built, validated and normalised, before the
    \<^verbatim>\<open>Vehicle.findById\<close> of the second hook;
  \<^item> \<open>HookVehicleOk\<close>: before the \<^verbatim>\<open>findOverlappingBookings\<close> of the second hook;
  \<^item> \<open>HookOk\<close>: before the insert;
  \<^item> \<open>Inserted\<close>: before \<^verbatim>\<open>await Booking.findById\<close>;
  \<^item> \<open>Done\<close>: the promise is settled.
  \<open>step\<close> performs the database operation a call waits for and runs the call to its next
  \<^verbatim>\<open>await\<close>.
\<close>

datatype call =
    Start
  | Checked rat int
  | Saving booking
  | HookVehicleOk booking
  | HookOk booking
  | Inserted booking
  | Done "error + booking option"

definition step :: "env \<Rightarrow> bookingData \<Rightarrow> call \<Rightarrow> database \<Rightarrow> call \<times> database" where
  "step e bookingData c db =
     (case c of
        Start \<Rightarrow>
          (case findVehicleById (vehicles db) (bd_vehicleId bookingData) of
             None \<Rightarrow> (Done (Inl VehicleNotFound), db)
           | Some vehicle \<Rightarrow>
               if \<not> isActive vehicle then (Done (Inl VehicleInactive), db)
               else
                 (case finalDuration bookingData of
                    Inl _ \<Rightarrow> (Done (Inl ServerError), db)
                  | Inr duration \<Rightarrow>
                      (case finalEndTime bookingData duration of
                         Inl _ \<Rightarrow> (Done (Inl ServerError), db)
                       | Inr None \<Rightarrow> (Done (Inl ServerError), db)
                       | Inr (Some endT) \<Rightarrow> (Checked duration endT, db))))
      | Checked duration endT \<Rightarrow>
          if findOverlappingBookings (bookings db) (bd_vehicleId bookingData)
               (bd_startTime bookingData) endT None \<noteq> []
          then (Done (Inl BookingConflict), db)
          else
            let booking = newBooking (env_newId e) bookingData endT duration
            in if \<not> validateBooking (env_now e) booking then (Done (Inl ServerError), db)
               else (Saving (normalise booking), db)
      | Saving b \<Rightarrow>
          if status b = Cancelled then (HookOk b, db)
          else
            (case findVehicleById (vehicles db) (vehicleId b) of
               None \<Rightarrow> (Done (Inl ServerError), db)
             | Some vehicle \<Rightarrow>
                 if \<not> isActive vehicle then (Done (Inl ServerError), db)
                 else (HookVehicleOk b, db))
      | HookVehicleOk b \<Rightarrow>
          if findOverlappingBookings (bookings db) (vehicleId b) (startTime b) (endTime b)
               (Some (b_id b)) \<noteq> []
          then (Done (Inl ServerError), db)
          else (HookOk b, db)
      | HookOk b \<Rightarrow>
          (case insertBooking (env_now e) b db of
             None \<Rightarrow> (Done (Inl ServerError), db)
           | Some db' \<Rightarrow> (Inserted b, db'))
      | Inserted b \<Rightarrow> (Done (Inr (findBookingById (bookings db) (b_id b))), db)
      | Done r \<Rightarrow> (Done r, db))"

text \<open>Several calls in flight: each has its argument and its environment; a schedule
  names, step by step, the call whose awaited operation completes next.\<close>

record request =
  rq_env :: env
  rq_data :: bookingData

definition stepAt :: "request list \<Rightarrow> nat \<Rightarrow> call list \<times> database \<Rightarrow> call list \<times> database" where
  "stepAt rqs i st =
     (case st of (cs, db) \<Rightarrow>
        if i < length cs \<and> i < length rqs
        then (case step (rq_env (rqs ! i)) (rq_data (rqs ! i)) (cs ! i) db of
                (c', db') \<Rightarrow> (cs[i := c'], db'))
        else (cs, db))"

definition run :: "request list \<Rightarrow> nat list \<Rightarrow> database \<Rightarrow> call list \<times> database" where
  "run rqs schedule db =
     foldl (\<lambda>st i. stepAt rqs i st) (replicate (length rqs) Start, db) schedule"

subsection \<open>Notions of the specification\<close>

text \<open>A location code in the sense of the specification: exactly six decimal digits whose
  value lies between 100000 and 999999.\<close>

definition validLocationCode :: "string \<Rightarrow> bool" where
  "validLocationCode s =
     (length s = 6 \<and> list_all isDigit s \<and> 100000 \<le> digitsValue s \<and> digitsValue s \<le> 999999)"

text \<open>A category that names a member every object inherits (\<^verbatim>\<open>constructor\<close>, \<^verbatim>\<open>toString\<close>,
  ...): for the code it is neither a known nor an unknown category.\<close>

definition namesInheritedMember :: "string option \<Rightarrow> bool" where
  "namesInheritedMember c =
     (case c of None \<Rightarrow> False | Some k \<Rightarrow> k \<in> set objectPrototypeKeys)"

text \<open>The enhanced estimate before its final rounding, in the words of the specification
  and in double arithmetic: the base estimate times the factor of the category, times
  the traffic factor when there is one to apply, plus the loading term when loading time
  is requested.\<close>

definition categoryFactor :: "string option \<Rightarrow> rat" where
  "categoryFactor c =
     (if c = Some ''motorcycle'' then fl (8 / 10)
      else if c = Some ''van'' then fl (11 / 10)
      else if c = Some ''truck'' then fl (13 / 10)
      else if c = Some ''trailer'' then 15 / 10
      else 1)"

definition loadingTerm :: "rat \<Rightarrow> rat" where
  "loadingTerm base = max (1 / 2) (min (fl (fl (1 / 10) * base)) 2)"

definition unroundedEstimate :: "rat option \<Rightarrow> rat \<Rightarrow> options \<Rightarrow> rat" where
  "unroundedEstimate traffic base opts =
     (let x = fl (base * categoryFactor (opt_vehicleType opts));
          x = (case traffic of None \<Rightarrow> x | Some t \<Rightarrow> fl (x * t))
      in if opt_includeLoadingTime opts then fl (x + loadingTerm base) else x)"

text \<open>The traffic factor to apply, as the specification states it: the caller's, only if
  one is supplied and lies in \<open>[1, 3]\<close>.\<close>

definition trafficFactor_spec :: "rat option \<Rightarrow> rat option" where
  "trafficFactor_spec t =
     (case t of None \<Rightarrow> None | Some x \<Rightarrow> if 1 \<le> x \<and> x \<le> 3 then Some x else None)"

definition estimateEnhanced_spec :: "rat \<Rightarrow> options \<Rightarrow> rat" where
  "estimateEnhanced_spec base opts =
     unroundedEstimate (trafficFactor_spec (opt_trafficFactor opts)) base opts"

text \<open>The same with the default that the code has: a traffic factor that is not supplied,
  or is zero, counts as 1.2.\<close>

definition trafficFactor_default :: "rat option \<Rightarrow> rat option" where
  "trafficFactor_default t =
     (case t of
        None \<Rightarrow> Some (fl (12 / 10))
      | Some x \<Rightarrow>
          if x = 0 then Some (fl (12 / 10)) else if 1 \<le> x \<and> x \<le> 3 then Some x else None)"

definition estimateEnhanced_default :: "rat \<Rightarrow> options \<Rightarrow> rat" where
  "estimateEnhanced_default base opts =
     unroundedEstimate (trafficFactor_default (opt_trafficFactor opts)) base opts"

text \<open>No double booking: the bookings of a vehicle whose status is outside a given list
  have pairwise non-overlapping half-open intervals.\<close>

definition intervalsOverlap :: "booking \<Rightarrow> booking \<Rightarrow> bool" where
  "intervalsOverlap b1 b2 = (startTime b1 < endTime b2 \<and> endTime b1 > startTime b2)"

fun pairwiseDisjoint :: "booking list \<Rightarrow> bool" where
  "pairwiseDisjoint [] = True"
| "pairwiseDisjoint (b # bs) = (list_all (\<lambda>c. \<not> intervalsOverlap b c) bs \<and> pairwiseDisjoint bs)"

definition bookingsOutside :: "status list \<Rightarrow> nat \<Rightarrow> database \<Rightarrow> booking list" where
  "bookingsOutside excluded v db =
     filter (\<lambda>b. vehicleId b = v \<and> status b \<notin> set excluded) (bookings db)"

definition noDoubleBooking :: "status list \<Rightarrow> nat \<Rightarrow> database \<Rightarrow> bool" where
  "noDoubleBooking excluded v db = pairwiseDisjoint (bookingsOutside excluded v db)"

text \<open>Sortedness for a comparator: no element compares greater than a later one.\<close>

fun sortedBy :: "('a \<Rightarrow> 'a \<Rightarrow> int) \<Rightarrow> 'a list \<Rightarrow> bool" where
  "sortedBy cmp [] = True"
| "sortedBy cmp (x # xs) = (list_all (\<lambda>y. cmp x y \<le> 0) xs \<and> sortedBy cmp xs)"

text \<open>The transition table in the words of the specification.\<close>

fun allowedSet :: "status \<Rightarrow> status set" where
  "allowedSet Pending = {Confirmed, Cancelled}"
| "allowedSet Confirmed = {In_progress, Cancelled}"
| "allowedSet In_progress = {Completed, Cancelled}"
| "allowedSet Completed = {}"
| "allowedSet Cancelled = {}"

text \<open>A booking may be cancelled, in the words of the specification: it is pending or
  confirmed and starts strictly more than one hour (3600000 ms) after the current
  time.\<close>

definition cancellable :: "int \<Rightarrow> booking \<Rightarrow> bool" where
  "cancellable t b =
     ((status b = Pending \<or> status b = Confirmed) \<and> startTime b > t + 3600000)"

text \<open>The document that a successful \<^verbatim>\<open>createBooking\<close> stores: the new booking with
  its timestamps.\<close>

definition storedBooking :: "env \<Rightarrow> bookingData \<Rightarrow> int \<Rightarrow> rat \<Rightarrow> booking" where
  "storedBooking e bd endT dur =
     (newBooking (env_newId e) bd endT dur)\<lparr>b_createdAt := env_now e, b_updatedAt := env_now e\<rparr>"

subsection \<open>Sample data\<close>

text \<open>One active truck of 5000 kg, and bookings of it between given instants (the
  scenarios of the specification take the current time as 0: two hours are 7200000).\<close>

definition truck :: vehicle where
  "truck = \<lparr> v_id = 1, v_name = ''Test Truck'', capacityKg = 5000, tyres = 6,
             isActive = True, vehicleType = ''truck'', v_createdAt = 0 \<rparr>"

definition sampleBooking :: "nat \<Rightarrow> status \<Rightarrow> int \<Rightarrow> int \<Rightarrow> booking" where
  "sampleBooking i s t1 t2 =
     \<lparr> b_id = i, vehicleId = 1, customerId = ''customer1'', fromPincode = ''110001'',
       toPincode = ''110025'', startTime = t1, endTime = t2,
       estimatedRideDurationHours = 2, status = s, totalDistance = None,
       estimatedCost = None, actualStartTime = None, actualEndTime = None,
       b_notes = None, b_createdAt = 0, b_updatedAt = 0 \<rparr>"

definition sampleDb :: "booking list \<Rightarrow> database" where
  "sampleDb bs = \<lparr> vehicles = [truck], bookings = bs \<rparr>"

text \<open>A request for the truck from 110001 to 110025 that starts at a given instant, with
  an optional duration; and the environment of a call at time 0 that generates a given
  identifier.\<close>

definition sampleRequest :: "int \<Rightarrow> rat option \<Rightarrow> bookingData" where
  "sampleRequest t d =
     \<lparr> bd_vehicleId = 1, bd_customerId = ''customer2'', bd_fromPincode = ''110001'',
       bd_toPincode = ''110025'', bd_startTime = t, bd_endTime = None,
       bd_estimatedRideDurationHours = d, bd_status = None, bd_totalDistance = None,
       bd_estimatedCost = None, bd_actualStartTime = None, bd_actualEndTime = None,
       bd_notes = None \<rparr>"

definition sampleEnv :: "nat \<Rightarrow> env" where
  "sampleEnv i = \<lparr> env_now = 0, env_newId = i \<rparr>"

text \<open>A search from 110001 to 110025 that starts at two hours, for a given capacity.\<close>

definition sampleSearch :: "int \<Rightarrow> searchParams" where
  "sampleSearch c =
     \<lparr> sp_capacityRequired = c, sp_fromPincode = ''110001'', sp_toPincode = ''110025'',
       sp_startTime = 7200000, sp_vehicleType = None, sp_includeEnhancedDuration = False \<rparr>"

text \<open>Two requests for the truck and the same window, from two callers.\<close>

definition raceRequests :: "request list" where
  "raceRequests =
     [\<lparr> rq_env = sampleEnv 2, rq_data = sampleRequest 7200000 None \<rparr>,
      \<lparr> rq_env = sampleEnv 3, rq_data = sampleRequest 7200000 None \<rparr>]"

section \<open>Properties\<close>

subsection \<open>The duration estimate\<close>

lemma isDigit_not_isWhiteSpace: "isDigit c \<Longrightarrow> \<not> isWhiteSpace c"
  by (auto simp: isDigit_def isWhiteSpace_def)

lemma isDigit_not_sign: "isDigit c \<Longrightarrow> c \<noteq> CHR ''-'' \<and> c \<noteq> CHR ''+''"
  by (auto simp: isDigit_def)

lemma takeWhile_all: "list_all P xs \<Longrightarrow> takeWhile P xs = xs"
  by (induction xs) auto

lemma parseInt_digits:
  "isDigit c \<Longrightarrow> list_all isDigit r \<Longrightarrow> parseInt (c # r) = Some (digitsValue (c # r))"
  by (simp add: parseInt_def Let_def isDigit_not_isWhiteSpace isDigit_not_sign takeWhile_all)

lemma parseInt_validLocationCode:
  "validLocationCode s \<Longrightarrow> parseInt s = Some (digitsValue s)"
  by (cases s) (auto simp: validLocationCode_def parseInt_digits)

lemma estimate_valid:
  assumes "validLocationCode orig" and "validLocationCode dest"
  shows "calculateEstimatedDuration orig dest =
           Inr (max (of_int (\<bar>digitsValue dest - digitsValue orig\<bar> mod 24)) (1 / 2))"
  using assms
  by (simp add: calculateEstimatedDuration_def parseInt_validLocationCode)
     (auto simp: validLocationCode_def)

lemma clamp_cases:
  fixes m :: int
  assumes "0 \<le> m" and "m < 24"
  shows "max (of_int m) (1 / 2 :: rat) = 1 / 2
       \<or> (\<exists>k::int. 1 \<le> k \<and> k \<le> 23 \<and> max (of_int m) (1 / 2 :: rat) = of_int k)"
proof (cases "m = 0")
  case True
  then show ?thesis by simp
next
  case False
  with assms have m: "1 \<le> m" "m \<le> 23" by auto
  from m have "(1::rat) \<le> of_int m" by simp
  then have "(1 / 2 :: rat) \<le> of_int m" by simp
  then have "max (of_int m) (1 / 2 :: rat) = of_int m" by (simp add: max_def)
  with m show ?thesis by blast
qed

lemma validLocationCode_examples:
  "validLocationCode ''400001''" "validLocationCode ''400002''" "validLocationCode ''400005''"
  "validLocationCode ''110001''" "validLocationCode ''110025''"
  by (simp_all add: validLocationCode_def isDigit_def digitsValue_def digitValue_def)

lemma digitsValue_examples:
  "digitsValue ''400001'' = 400001" "digitsValue ''400002'' = 400002"
  "digitsValue ''400005'' = 400005" "digitsValue ''110001'' = 110001"
  "digitsValue ''110025'' = 110025"
  by (simp_all add: digitsValue_def digitValue_def)

text \<open>
  C6. For every pair of valid six-digit location codes, the estimate is
  \<open>max (|int dest - int orig| mod 24) 0.5\<close>. Hence it is symmetric, it is either 0.5 or a
  whole number of hours from 1 to 23, and the estimate from 110001 to 110025 is 0.5
  (the difference 24 leaves the remainder 0, which is raised to the minimum).
  The estimate is a function of its two arguments, so repeated calls agree.
\<close>

theorem estimate_formula:
  assumes "validLocationCode orig" and "validLocationCode dest"
  shows "calculateEstimatedDuration orig dest =
           Inr (max (of_int (\<bar>digitsValue dest - digitsValue orig\<bar> mod 24)) (1 / 2))
       \<and> calculateEstimatedDuration orig dest = calculateEstimatedDuration dest orig
       \<and> (\<exists>r. calculateEstimatedDuration orig dest = Inr r
              \<and> (r = 1 / 2 \<or> (\<exists>k::int. 1 \<le> k \<and> k \<le> 23 \<and> r = of_int k)))
       \<and> calculateEstimatedDuration ''110001'' ''110025'' = Inr (1 / 2)"
proof -
  have f: "calculateEstimatedDuration orig dest =
           Inr (max (of_int (\<bar>digitsValue dest - digitsValue orig\<bar> mod 24)) (1 / 2))"
    using assms by (rule estimate_valid)
  have g: "calculateEstimatedDuration dest orig =
           Inr (max (of_int (\<bar>digitsValue orig - digitsValue dest\<bar> mod 24)) (1 / 2))"
    using assms(2,1) by (rule estimate_valid)
  have sym: "\<bar>digitsValue dest - digitsValue orig\<bar> = \<bar>digitsValue orig - digitsValue dest\<bar>"
    by simp
  have rng: "\<exists>r. calculateEstimatedDuration orig dest = Inr r
              \<and> (r = 1 / 2 \<or> (\<exists>k::int. 1 \<le> k \<and> k \<le> 23 \<and> r = of_int k))"
    unfolding f using clamp_cases[of "\<bar>digitsValue dest - digitsValue orig\<bar> mod 24"] by simp
  have ex: "calculateEstimatedDuration ''110001'' ''110025'' = Inr (1 / 2)"
    by (simp add: calculateEstimatedDuration_def parseInt_def isWhiteSpace_def isDigit_def
        digitsValue_def digitValue_def)
  show ?thesis using f g sym rng ex by simp
qed

theorem estimate_formula_witness:
  "validLocationCode ''400001'' \<and> validLocationCode ''400002''
   \<and> calculateEstimatedDuration ''400001'' ''400002'' = Inr 1
   \<and> calculateEstimatedDuration ''400002'' ''400001'' = Inr 1"
proof -
  note v = validLocationCode_examples(1,2)
  from estimate_formula[OF v]
  have a: "calculateEstimatedDuration ''400001'' ''400002'' =
             Inr (max (of_int (\<bar>digitsValue ''400002'' - digitsValue ''400001''\<bar> mod 24)) (1 / 2))"
   and b: "calculateEstimatedDuration ''400001'' ''400002'' =
             calculateEstimatedDuration ''400002'' ''400001''"
    by blast+
  have c: "calculateEstimatedDuration ''400001'' ''400002'' = Inr 1"
    unfolding a digitsValue_examples by simp
  show ?thesis using v c b by simp
qed

text \<open>
  C7. The estimate is to fail with \<open>InvalidLocationCode\<close> exactly when a code is not a
  string of six decimal digits with a value from 100000 to 999999. The code reads each
  argument with \<^verbatim>\<open>parseInt\<close> and only checks the range of the number read: the string
  \<^verbatim>\<open>110001abc\<close> is not six decimal digits, and the call returns the duration 0.5 for it
  instead of failing.
\<close>

theorem estimate_accepts_trailing_text:
  "\<not> validLocationCode ''110001abc''
   \<and> calculateEstimatedDuration ''110001abc'' ''110025'' = Inr (1 / 2)"
  by (simp add: validLocationCode_def calculateEstimatedDuration_def parseInt_def
      isWhiteSpace_def isDigit_def digitsValue_def digitValue_def)

subsection \<open>The enhanced estimate\<close>

lemma fl_literals:
  "fl (4 / 5) = 3602879701896397 / 4503599627370496"
  "fl (11 / 10) = 2476979795053773 / 2251799813685248"
  "fl (13 / 10) = 5854679515581645 / 4503599627370496"
  "fl (6 / 5) = 5404319552844595 / 4503599627370496"
  "fl (1 / 10) = 3602879701896397 / 36028797018963968"
  "fl 1 = 1"
  by code_simp+

lemma vehicleFactor_categoryFactor:
  assumes "\<not> namesInheritedMember c"
  shows "(case c of
            None \<Rightarrow> Num 1
          | Some k \<Rightarrow>
              (case vehicleFactors k of
                 Own f \<Rightarrow> if f = 0 then Num 1 else Num f
               | Inherited \<Rightarrow> NaN
               | Undefined \<Rightarrow> Num 1)) = Num (categoryFactor c)"
proof (cases c)
  case None
  then show ?thesis by (simp add: categoryFactor_def)
next
  case (Some k)
  with assms have "k \<notin> set objectPrototypeKeys" by (simp add: namesInheritedMember_def)
  then show ?thesis
    unfolding Some by (simp add: vehicleFactors_def categoryFactor_def fl_literals)
qed

lemma loading_eq: "max (min (fl (b * fl (1 / 10))) 2) (1 / 2 :: rat) = loadingTerm b"
  by (simp add: loadingTerm_def max.commute mult.commute)

lemma enhanced_of_base:
  assumes "calculateEstimatedDuration orig dest = Inr base"
      and "\<not> namesInheritedMember (opt_vehicleType opts)"
  shows "calculateEnhancedDuration orig dest opts =
           Inr (Num (round2 (estimateEnhanced_default base opts)))"
  unfolding calculateEnhancedDuration_def assms(1) Let_def
    vehicleFactor_categoryFactor[OF assms(2)] loading_eq
  by (simp add: estimateEnhanced_default_def unroundedEstimate_def trafficFactor_default_def
      fl_literals split: option.splits)

lemma round2_nearest:
  "\<exists>k::int. round2 x = fl (of_int k / 100)
     \<and> of_int k - 1 / 2 \<le> fl (x * 100) \<and> fl (x * 100) < of_int k + 1 / 2"
proof -
  let ?k = "\<lfloor>fl (x * 100) + 1 / 2\<rfloor>"
  have "of_int ?k \<le> fl (x * 100) + 1 / 2" and "fl (x * 100) + 1 / 2 < of_int ?k + 1"
    by linarith+
  then have "of_int ?k - 1 / 2 \<le> fl (x * 100)" and "fl (x * 100) < of_int ?k + 1 / 2"
    by linarith+
  then show ?thesis unfolding round2_def by blast
qed

text \<open>
  C8, as the code has it. For every pair of valid codes and every modifiers object whose
  category does not name a member that objects inherit, the enhanced estimate is the base
  estimate times the factor of the category (motorcycle 0.8, van 1.1, truck 1.3, trailer
  1.5, every other category and no category 1.0), times the traffic factor, plus the
  loading term \<open>max 0.5 (min (0.1 * base) 2)\<close> when loading time is requested, each step in
  double arithmetic, and then rounded to two decimal places: the result is the double of
  \<open>k / 100\<close> for the integer \<open>k\<close> nearest to a hundred times that value, a half going
  upwards. The traffic factor is the caller's when it lies in \<open>[1, 3]\<close>; a caller's factor
  outside that range is ignored; when the caller supplies none (or zero) the factor is
  the default 1.2.
\<close>

theorem enhanced_estimate:
  assumes "validLocationCode orig" and "validLocationCode dest"
      and "\<not> namesInheritedMember (opt_vehicleType opts)"
  shows "\<exists>k::int.
           calculateEnhancedDuration orig dest opts = Inr (Num (fl (of_int k / 100)))
           \<and> of_int k - 1 / 2
               \<le> fl (estimateEnhanced_default
                       (max (of_int (\<bar>digitsValue dest - digitsValue orig\<bar> mod 24)) (1 / 2))
                       opts * 100)
           \<and> fl (estimateEnhanced_default
                    (max (of_int (\<bar>digitsValue dest - digitsValue orig\<bar> mod 24)) (1 / 2))
                    opts * 100)
               < of_int k + 1 / 2"
  unfolding enhanced_of_base[OF estimate_valid[OF assms(1,2)] assms(3)]
  using round2_nearest by simp

theorem enhanced_estimate_witness:
  "validLocationCode ''110001'' \<and> validLocationCode ''110025''
   \<and> \<not> namesInheritedMember (Some ''motorcycle'')
   \<and> calculateEnhancedDuration ''110001'' ''110025''
        \<lparr> opt_vehicleType = Some ''motorcycle'', opt_trafficFactor = Some (21 / 16),
          opt_includeLoadingTime = True \<rparr>
       = Inr (Num (2296835809958953 / 2251799813685248))"
proof -
  let ?opts = "\<lparr> opt_vehicleType = Some ''motorcycle'', opt_trafficFactor = Some (21 / 16),
          opt_includeLoadingTime = True \<rparr>"
  note v = validLocationCode_examples(4,5)
  have n: "\<not> namesInheritedMember (Some ''motorcycle'')"
    by (simp add: namesInheritedMember_def objectPrototypeKeys_def)
  then have n': "\<not> namesInheritedMember (opt_vehicleType ?opts)" by simp
  have b: "max (of_int (\<bar>digitsValue ''110025'' - digitsValue ''110001''\<bar> mod 24)) (1 / 2 :: rat)
             = 1 / 2"
    by (simp add: digitsValue_examples)
  have u: "fl (estimateEnhanced_default (1 / 2) ?opts * 100)
             = 7212796278210559 / 70368744177664"
    by code_simp
  from enhanced_estimate[OF v n', unfolded b u] obtain k :: int where
    r: "calculateEnhancedDuration ''110001'' ''110025'' ?opts = Inr (Num (fl (of_int k / 100)))"
    and lo: "of_int k - 1 / 2 \<le> (7212796278210559 / 70368744177664 :: rat)"
    and hi: "(7212796278210559 / 70368744177664 :: rat) < of_int k + 1 / 2"
    by blast
  from lo have "(of_int k :: rat) < of_int 103" by simp
  then have k1: "k < 103" by (simp only: of_int_less_iff)
  from hi have "(of_int 101 :: rat) < of_int k" by simp
  then have k2: "101 < k" by (simp only: of_int_less_iff)
  from k1 k2 have k: "k = 102" by simp
  have f: "fl (of_int 102 / 100) = 2296835809958953 / 2251799813685248"
    by code_simp
  show ?thesis using v n r[unfolded k f] by simp
qed

text \<open>
  C8, as stated, has no traffic multiplication when no traffic factor is supplied, holds
  for every modifiers object, and rounds the exact value. From 400001 to 400002 the base
  estimate is 1; with an empty modifiers object the statement gives 1 before and after
  rounding, and the code returns the double of 1.2, as it does for a traffic factor of 0.
  With the category \<open>constructor\<close> the code returns \<^verbatim>\<open>NaN\<close>. From 110001 to 110025 the
  base estimate is 0.5; for a motorcycle, the traffic factor 1.3125 and loading time the
  exact value is 1.025, which rounds to 1.03, and the code returns the double of 1.02:
  the sum in doubles is just below 1.025.
\<close>

theorem enhanced_stated_counterexample:
  "validLocationCode ''400001'' \<and> validLocationCode ''400002''
   \<and> calculateEstimatedDuration ''400001'' ''400002'' = Inr 1
   \<and> calculateEnhancedDuration ''400001'' ''400002''
        \<lparr> opt_vehicleType = None, opt_trafficFactor = None, opt_includeLoadingTime = False \<rparr>
       = Inr (Num (5404319552844595 / 4503599627370496))
   \<and> estimateEnhanced_spec 1
        \<lparr> opt_vehicleType = None, opt_trafficFactor = None, opt_includeLoadingTime = False \<rparr>
       = 1
   \<and> calculateEnhancedDuration ''400001'' ''400002''
        \<lparr> opt_vehicleType = None, opt_trafficFactor = Some 0, opt_includeLoadingTime = False \<rparr>
       = Inr (Num (5404319552844595 / 4503599627370496))
   \<and> calculateEnhancedDuration ''400001'' ''400002''
        \<lparr> opt_vehicleType = Some ''constructor'', opt_trafficFactor = None,
          opt_includeLoadingTime = False \<rparr> = Inr NaN
   \<and> validLocationCode ''110001'' \<and> validLocationCode ''110025''
   \<and> calculateEstimatedDuration ''110001'' ''110025'' = Inr (1 / 2)
   \<and> calculateEnhancedDuration ''110001'' ''110025''
        \<lparr> opt_vehicleType = Some ''motorcycle'', opt_trafficFactor = Some (21 / 16),
          opt_includeLoadingTime = True \<rparr>
       = Inr (Num (2296835809958953 / 2251799813685248))
   \<and> fl (102 / 100) = 2296835809958953 / 2251799813685248
   \<and> 1 / 2 * (8 / 10) * (21 / 16) + max (1 / 2) (min (1 / 10 * (1 / 2)) 2) = (41 / 40 :: rat)
   \<and> \<lfloor>(41 / 40 :: rat) * 100 + 1 / 2\<rfloor> = 103"
proof -
  note v = validLocationCode_examples(1,2,4,5)
  have b: "calculateEstimatedDuration ''400001'' ''400002'' = Inr 1"
    by (simp add: calculateEstimatedDuration_def parseInt_def isWhiteSpace_def isDigit_def
        digitsValue_def digitValue_def)
  have r: "round2 (fl (5404319552844595 / 4503599627370496))
             = 5404319552844595 / 4503599627370496"
    by code_simp
  have c: "calculateEnhancedDuration ''400001'' ''400002''
        \<lparr> opt_vehicleType = None, opt_trafficFactor = None, opt_includeLoadingTime = False \<rparr>
       = Inr (Num (5404319552844595 / 4503599627370496))"
    by (simp add: calculateEnhancedDuration_def b fl_literals r)
  have s: "estimateEnhanced_spec 1
        \<lparr> opt_vehicleType = None, opt_trafficFactor = None, opt_includeLoadingTime = False \<rparr>
       = 1"
    by code_simp
  have z: "calculateEnhancedDuration ''400001'' ''400002''
        \<lparr> opt_vehicleType = None, opt_trafficFactor = Some 0, opt_includeLoadingTime = False \<rparr>
       = Inr (Num (5404319552844595 / 4503599627370496))"
    by (simp add: calculateEnhancedDuration_def b fl_literals r)
  have i: "calculateEnhancedDuration ''400001'' ''400002''
        \<lparr> opt_vehicleType = Some ''constructor'', opt_trafficFactor = None,
          opt_includeLoadingTime = False \<rparr> = Inr NaN"
    by (simp add: calculateEnhancedDuration_def b vehicleFactors_def objectPrototypeKeys_def
        fl_literals)
  have b': "calculateEstimatedDuration ''110001'' ''110025'' = Inr (1 / 2)"
    by (simp add: calculateEstimatedDuration_def parseInt_def isWhiteSpace_def isDigit_def
        digitsValue_def digitValue_def)
  have d: "calculateEnhancedDuration ''110001'' ''110025''
        \<lparr> opt_vehicleType = Some ''motorcycle'', opt_trafficFactor = Some (21 / 16),
          opt_includeLoadingTime = True \<rparr>
       = Inr (Num (2296835809958953 / 2251799813685248))"
    by code_simp
  have f: "fl (102 / 100) = 2296835809958953 / 2251799813685248"
    by code_simp
  have x: "1 / 2 * (8 / 10) * (21 / 16) + max (1 / 2) (min (1 / 10 * (1 / 2)) 2) = (41 / 40 :: rat)"
    by simp
  have y: "\<lfloor>(41 / 40 :: rat) * 100 + 1 / 2\<rfloor> = 103"
    by code_simp
  show ?thesis
    by (intro conjI v b c s z i b' d f x y)
qed

text \<open>A category that names an inherited member is neither known nor unknown to the
  code: the factor read is not a number, and the result is \<^verbatim>\<open>NaN\<close>.\<close>

lemma enhanced_inherited_member:
  "namesInheritedMember (Some ''constructor'')
   \<and> calculateEnhancedDuration ''400001'' ''400002''
        \<lparr> opt_vehicleType = Some ''constructor'', opt_trafficFactor = None,
          opt_includeLoadingTime = False \<rparr> = Inr NaN"
  by (simp add: namesInheritedMember_def calculateEnhancedDuration_def
      calculateEstimatedDuration_def parseInt_def isWhiteSpace_def isDigit_def
      digitsValue_def digitValue_def vehicleFactors_def objectPrototypeKeys_def
      fl_literals)

subsection \<open>Status transitions and cancellation\<close>

lemma find_updateFirst:
  assumes "find (\<lambda>b. b_id b = i) bs = Some b" and "\<And>x. b_id (f x) = b_id x"
  shows "find (\<lambda>b. b_id b = i) (updateFirst i f bs) = Some (f b)"
  using assms by (induction bs) (auto split: if_splits)


lemma b_id_applyUpdate: "b_id (applyUpdate now uf x) = b_id x"
  by (simp add: applyUpdate_def)

lemma updateBookingStatus_cases:
  assumes "findBookingById (bookings db) bookingId = Some b"
  shows "updateBookingStatus now bookingId ud db =
     (if ud_status ud \<notin> set (validTransitions (status b))
      then (Inl (InvalidStatusTransition (status b) (ud_status ud)), db)
      else if ud_status ud = Cancelled \<and> \<not> canBeCancelled now b
      then (Inl NotCancellable, db)
      else if (case ud_notes ud of None \<Rightarrow> False | Some n \<Rightarrow> length (trim n) > 1000)
      then (Inl ServerError, db)
      else (let uf = \<lparr> uf_status = ud_status ud,
                       uf_notes = (case ud_notes ud of
                                     None \<Rightarrow> None
                                   | Some n \<Rightarrow> if n \<noteq> [] then Some n else None),
                       uf_actualStartTime =
                         (if ud_status ud = In_progress \<and> actualStartTime b = None
                          then Some now else None),
                       uf_actualEndTime =
                         (if ud_status ud = Completed \<and> actualEndTime b = None
                          then Some now else None) \<rparr>
            in (Inr (applyUpdate now uf b),
                db\<lparr>bookings := updateFirst bookingId (applyUpdate now uf) (bookings db)\<rparr>)))"
proof -
  have f: "\<And>uf. findBookingById (updateFirst bookingId (applyUpdate now uf) (bookings db)) bookingId
             = Some (applyUpdate now uf b)"
    using assms unfolding findBookingById_def
    by (rule find_updateFirst) (rule b_id_applyUpdate)
  have t: "trim [] = []" by (simp add: trim_def)
  show ?thesis
    unfolding updateBookingStatus_def assms
    by (auto simp: Let_def findByIdAndUpdate_def f t split: option.splits)
qed

lemma validTransitions_allowedSet: "set (validTransitions s) = allowedSet s"
  by (cases s) (simp_all add: validTransitions_def)

lemma canBeCancelled_cancellable: "canBeCancelled t b = cancellable t b"
  by (auto simp: canBeCancelled_def cancellable_def)

lemma findBookingById_sample:
  "findBookingById (bookings (sampleDb [sampleBooking i s t1 t2])) i = Some (sampleBooking i s t1 t2)"
  by (simp add: findBookingById_def sampleDb_def sampleBooking_def)

lemma status_sample: "status (sampleBooking i s t1 t2) = s"
  by (simp add: sampleBooking_def)

lemma startTime_sample: "startTime (sampleBooking i s t1 t2) = t1"
  by (simp add: sampleBooking_def)


text \<open>
  C4. For a booking in status \<open>s\<close> and a requested status \<open>t\<close>, \<^verbatim>\<open>updateBookingStatus\<close>
  succeeds only if \<open>t\<close> is in the allowed set of \<open>s\<close> in the transition table (pending to
  confirmed or cancelled; confirmed to in-progress or cancelled; in-progress to completed
  or cancelled; nothing from completed or cancelled). Every other pair fails with
  \<open>InvalidStatusTransition\<close>, which names both states, and leaves the database as it was;
  in particular every request on a completed or cancelled booking fails so.
\<close>

theorem transition_closure:
  assumes "findBookingById (bookings db) bookingId = Some b"
  shows "((\<exists>b' db'. updateBookingStatus now bookingId ud db = (Inr b', db'))
            \<longrightarrow> ud_status ud \<in> allowedSet (status b))
       \<and> (ud_status ud \<notin> allowedSet (status b)
            \<longrightarrow> updateBookingStatus now bookingId ud db =
                  (Inl (InvalidStatusTransition (status b) (ud_status ud)), db))
       \<and> (status b = Completed \<or> status b = Cancelled
            \<longrightarrow> updateBookingStatus now bookingId ud db =
                  (Inl (InvalidStatusTransition (status b) (ud_status ud)), db))"
proof -
  note c = updateBookingStatus_cases[OF assms, of now ud, unfolded validTransitions_allowedSet]
  have a: "(\<exists>b' db'. updateBookingStatus now bookingId ud db = (Inr b', db'))
            \<longrightarrow> ud_status ud \<in> allowedSet (status b)"
    unfolding c by (auto split: if_splits)
  have b: "ud_status ud \<notin> allowedSet (status b)
            \<longrightarrow> updateBookingStatus now bookingId ud db =
                  (Inl (InvalidStatusTransition (status b) (ud_status ud)), db)"
    unfolding c by simp
  have t: "status b = Completed \<or> status b = Cancelled \<longrightarrow> ud_status ud \<notin> allowedSet (status b)"
    by auto
  show ?thesis using a b t by blast
qed

theorem transition_closure_witness:
  "findBookingById (bookings (sampleDb [sampleBooking 1 Confirmed 7200000 14400000])) 1
     = Some (sampleBooking 1 Confirmed 7200000 14400000)
   \<and> Completed \<notin> allowedSet Confirmed
   \<and> updateBookingStatus 0 1 \<lparr> ud_status = Completed, ud_notes = None \<rparr>
        (sampleDb [sampleBooking 1 Confirmed 7200000 14400000])
      = (Inl (InvalidStatusTransition Confirmed Completed),
         sampleDb [sampleBooking 1 Confirmed 7200000 14400000])"
  using transition_closure[OF findBookingById_sample[of 1 Confirmed 7200000 14400000],
      where now = 0 and ud = "\<lparr> ud_status = Completed, ud_notes = None \<rparr>"]
  by (simp add: findBookingById_sample status_sample)

text \<open>
  C5, as the code has it. Cancellation succeeds only for a booking that is pending or
  confirmed and starts strictly more than one hour after the current time (for
  \<^verbatim>\<open>cancelBooking\<close>: after both readings of the clock). In every other case
  \<^verbatim>\<open>cancelBooking\<close> fails with \<open>NotCancellable\<close>; \<^verbatim>\<open>updateBookingStatus\<close> with the target
  cancelled fails with \<open>InvalidStatusTransition\<close> when the booking is completed or
  cancelled (the transition table is consulted first) and with \<open>NotCancellable\<close>
  otherwise. The database is unchanged by each of these failures.
\<close>

theorem cancellation_precondition:
  assumes "findBookingById (bookings db) bookingId = Some b"
  shows "((\<exists>r db'. cancelBooking now now' bookingId reason db = (Inr r, db'))
            \<longrightarrow> cancellable now b \<and> cancellable now' b)
       \<and> (\<not> cancellable now b
            \<longrightarrow> cancelBooking now now' bookingId reason db = (Inl NotCancellable, db))
       \<and> ((\<exists>r db'. updateBookingStatus now bookingId \<lparr> ud_status = Cancelled, ud_notes = n \<rparr> db
                     = (Inr r, db'))
            \<longrightarrow> cancellable now b)
       \<and> (\<not> cancellable now b
            \<longrightarrow> updateBookingStatus now bookingId \<lparr> ud_status = Cancelled, ud_notes = n \<rparr> db =
                  (if status b = Completed \<or> status b = Cancelled
                   then (Inl (InvalidStatusTransition (status b) Cancelled), db)
                   else (Inl NotCancellable, db)))"
proof -
  note c = updateBookingStatus_cases[OF assms, unfolded validTransitions_allowedSet canBeCancelled_cancellable]
  have in_table: "Cancelled \<in> allowedSet (status b) \<longleftrightarrow> \<not> (status b = Completed \<or> status b = Cancelled)"
    by (cases "status b") simp_all
  have u1: "(\<exists>r db'. updateBookingStatus t bookingId \<lparr> ud_status = Cancelled, ud_notes = m \<rparr> db
                     = (Inr r, db')) \<longrightarrow> cancellable t b" for t m
    unfolding c by (auto split: if_splits)
  have u2: "\<not> cancellable now b
            \<longrightarrow> updateBookingStatus now bookingId \<lparr> ud_status = Cancelled, ud_notes = n \<rparr> db =
                  (if status b = Completed \<or> status b = Cancelled
                   then (Inl (InvalidStatusTransition (status b) Cancelled), db)
                   else (Inl NotCancellable, db))"
    unfolding c using in_table by simp
  have k1: "(\<exists>r db'. cancelBooking now now' bookingId reason db = (Inr r, db'))
            \<longrightarrow> cancellable now b \<and> cancellable now' b"
    unfolding cancelBooking_def assms canBeCancelled_cancellable
    using u1[of now'] by (auto split: if_splits)
  have k2: "\<not> cancellable now b
            \<longrightarrow> cancelBooking now now' bookingId reason db = (Inl NotCancellable, db)"
    unfolding cancelBooking_def assms canBeCancelled_cancellable by simp
  show ?thesis using k1 k2 u1[of now n] u2 by blast
qed

theorem cancellation_precondition_witness:
  "findBookingById (bookings (sampleDb [sampleBooking 1 Confirmed 1800000 9000000])) 1
     = Some (sampleBooking 1 Confirmed 1800000 9000000)
   \<and> \<not> cancellable 0 (sampleBooking 1 Confirmed 1800000 9000000)
   \<and> cancelBooking 0 0 1 None (sampleDb [sampleBooking 1 Confirmed 1800000 9000000])
      = (Inl NotCancellable, sampleDb [sampleBooking 1 Confirmed 1800000 9000000])
   \<and> updateBookingStatus 0 1 \<lparr> ud_status = Cancelled, ud_notes = None \<rparr>
        (sampleDb [sampleBooking 1 Confirmed 1800000 9000000])
      = (Inl NotCancellable, sampleDb [sampleBooking 1 Confirmed 1800000 9000000])"
proof -
  have n: "\<not> cancellable 0 (sampleBooking 1 Confirmed 1800000 9000000)"
    by (simp add: cancellable_def startTime_sample)
  show ?thesis
    using n cancellation_precondition[OF findBookingById_sample[of 1 Confirmed 1800000 9000000],
        where now = 0 and now' = 0 and reason = None and n = None]
    by (simp add: findBookingById_sample status_sample)
qed

text \<open>
  C5, as stated, has \<^verbatim>\<open>updateBookingStatus\<close> with the target cancelled fail with
  \<open>NotCancellable\<close> whenever the booking may not be cancelled. For a completed booking it
  fails with \<open>InvalidStatusTransition\<close> instead.
\<close>

theorem cancel_terminal_counterexample:
  "findBookingById (bookings (sampleDb [sampleBooking 1 Completed 7200000 14400000])) 1
     = Some (sampleBooking 1 Completed 7200000 14400000)
   \<and> \<not> cancellable 0 (sampleBooking 1 Completed 7200000 14400000)
   \<and> updateBookingStatus 0 1 \<lparr> ud_status = Cancelled, ud_notes = None \<rparr>
        (sampleDb [sampleBooking 1 Completed 7200000 14400000])
      = (Inl (InvalidStatusTransition Completed Cancelled),
         sampleDb [sampleBooking 1 Completed 7200000 14400000])
   \<and> updateBookingStatus 0 1 \<lparr> ud_status = Cancelled, ud_notes = None \<rparr>
        (sampleDb [sampleBooking 1 Completed 7200000 14400000])
      \<noteq> (Inl NotCancellable, sampleDb [sampleBooking 1 Completed 7200000 14400000])"
proof -
  have u: "updateBookingStatus 0 1 \<lparr> ud_status = Cancelled, ud_notes = None \<rparr>
        (sampleDb [sampleBooking 1 Completed 7200000 14400000])
      = (Inl (InvalidStatusTransition Completed Cancelled),
         sampleDb [sampleBooking 1 Completed 7200000 14400000])"
    by (simp add: updateBookingStatus_cases[OF findBookingById_sample] status_sample
        validTransitions_def)
  show ?thesis
    unfolding u by (simp add: findBookingById_sample cancellable_def status_sample)
qed





subsection \<open>Creating a booking\<close>

lemma padStart6_id: "length s = 6 \<Longrightarrow> padStart6 s = s"
  by (simp add: padStart6_def)

lemma normalise_valid: "validateBooking t b \<Longrightarrow> normalise b = b"
  by (auto simp: validateBooking_def normalise_def isPincodeFormat_def padStart6_id Let_def
      fl_literals)

lemma findOverlapping_exclude:
  "findOverlappingBookings bs v s t None = [] \<Longrightarrow> findOverlappingBookings bs v s t (Some x) = []"
  by (auto simp: findOverlappingBookings_def filter_empty_conv)

lemma find_append_fresh:
  "i \<notin> set (map b_id bs) \<Longrightarrow> b_id b = i \<Longrightarrow> find (\<lambda>x. b_id x = i) (bs @ [b]) = Some b"
  by (induction bs) auto

lemma save_cases:
  assumes "findVehicleById (vehicles db) (bd_vehicleId bd) = Some v" and "isActive v"
      and "findOverlappingBookings (bookings db) (bd_vehicleId bd) (bd_startTime bd) endT None = []"
  shows "save (env_now e) (newBooking (env_newId e) bd endT dur) db =
           (if validateBooking (env_now e) (newBooking (env_newId e) bd endT dur)
               \<and> env_newId e \<notin> set (map b_id (bookings db))
            then Some (db\<lparr>bookings := bookings db @ [storedBooking e bd endT dur]\<rparr>)
            else None)"
proof -
  have nb: "vehicleId (newBooking (env_newId e) bd endT dur) = bd_vehicleId bd"
       "startTime (newBooking (env_newId e) bd endT dur) = bd_startTime bd"
       "endTime (newBooking (env_newId e) bd endT dur) = endT"
       "status (newBooking (env_newId e) bd endT dur) = Confirmed"
       "b_id (newBooking (env_newId e) bd endT dur) = env_newId e"
    by (simp_all add: newBooking_def)
  have bv: "businessValidation db (newBooking (env_newId e) bd endT dur)"
    unfolding businessValidation_def nb assms(1)
    using assms(2) findOverlapping_exclude[OF assms(3)] by simp
  show ?thesis
    unfolding save_def
    by (auto simp: normalise_valid bv Let_def insertBooking_def nb storedBooking_def)
qed

lemma createBooking_cases:
  "createBooking e bd db =
     (case findVehicleById (vehicles db) (bd_vehicleId bd) of
        None \<Rightarrow> (Inl VehicleNotFound, db)
      | Some v \<Rightarrow>
          if \<not> isActive v then (Inl VehicleInactive, db)
          else
            (case finalDuration bd of
               Inl _ \<Rightarrow> (Inl ServerError, db)
             | Inr dur \<Rightarrow>
                 (case finalEndTime bd dur of
                    Inl _ \<Rightarrow> (Inl ServerError, db)
                  | Inr None \<Rightarrow> (Inl ServerError, db)
                  | Inr (Some endT) \<Rightarrow>
                      if findOverlappingBookings (bookings db) (bd_vehicleId bd)
                           (bd_startTime bd) endT None \<noteq> []
                      then (Inl BookingConflict, db)
                      else if validateBooking (env_now e) (newBooking (env_newId e) bd endT dur)
                              \<and> env_newId e \<notin> set (map b_id (bookings db))
                      then (Inr (Some (storedBooking e bd endT dur)),
                            db\<lparr>bookings := bookings db @ [storedBooking e bd endT dur]\<rparr>)
                      else (Inl ServerError, db))))"
proof -
  have fresh: "env_newId e \<notin> set (map b_id (bookings db)) \<Longrightarrow>
     findBookingById (bookings db @ [storedBooking e bd endT dur]) (env_newId e)
       = Some (storedBooking e bd endT dur)" for endT dur
    unfolding findBookingById_def
    by (rule find_append_fresh) (simp_all add: storedBooking_def newBooking_def)
  have id: "b_id (newBooking (env_newId e) bd endT dur) = env_newId e" for endT dur
    by (simp add: newBooking_def)
  show ?thesis
    unfolding createBooking_def
    by (auto simp: save_cases Let_def fresh id split: option.splits sum.splits)
qed

lemma estimate_sample: "calculateEstimatedDuration ''110001'' ''110025'' = Inr (1 / 2)"
  by (simp add: calculateEstimatedDuration_def parseInt_def isWhiteSpace_def isDigit_def
        digitsValue_def digitValue_def)

lemma finalDuration_sample:
  "finalDuration (sampleRequest t None) = Inr (1 / 2)"
  "finalDuration (sampleRequest t (Some 0)) = Inr (1 / 2)"
  by (simp_all add: finalDuration_def sampleRequest_def estimate_sample)

lemma fl_sample: "fl 30 = 30" "fl 1800 = 1800" "fl 1800000 = 1800000" "fl 9000000 = 9000000"
  by code_simp+

lemma calculateEndTime_sample: "calculateEndTime 7200000 (1 / 2) = Inr (Some 9000000)"
  by (simp add: calculateEndTime_def timeClip_def js_trunc_def fl_sample)

lemma finalEndTime_sample:
  "finalEndTime (sampleRequest 7200000 d) (1 / 2) = Inr (Some 9000000)"
  by (simp add: finalEndTime_def sampleRequest_def calculateEndTime_sample)

lemma findVehicle_sample:
  "findVehicleById (vehicles (sampleDb bs)) (bd_vehicleId (sampleRequest t d)) = Some truck"
  by (simp add: findVehicleById_def sampleDb_def sampleRequest_def truck_def)

lemma isActive_truck: "isActive truck"
  by (simp add: truck_def)

lemma trim_samples: "trim ''customer2'' = ''customer2''" "trim ''110001'' = ''110001''"
  "trim ''110025'' = ''110025''"
  by (simp_all add: trim_def isWhiteSpace_def)

lemma validate_sample:
  "validateBooking 0 (newBooking i (sampleRequest 7200000 d) 9000000 (1 / 2))"
  by (simp add: validateBooking_def newBooking_def sampleRequest_def trim_samples
      isPincodeFormat_def isDigit_def fl_literals)

lemma overlap_sample:
  "findOverlappingBookings [] v s t x = []"
  "findOverlappingBookings [sampleBooking 1 Completed 7200000 14400000] 1 7200000 9000000 None = []"
  "findOverlappingBookings [sampleBooking 1 Confirmed 7200000 14400000] 1 7200000 9000000 None \<noteq> []"
  by (simp_all add: findOverlappingBookings_def sampleBooking_def)





lemma storedBooking_fields:
  "status (storedBooking e bd endT dur) = Confirmed"
  "estimatedRideDurationHours (storedBooking e bd endT dur) = dur"
  "endTime (storedBooking e bd endT dur) = endT"
  "startTime (storedBooking e bd endT dur) = bd_startTime bd"
  "vehicleId (storedBooking e bd endT dur) = bd_vehicleId bd"
  "b_id (storedBooking e bd endT dur) = env_newId e"
  by (simp_all add: storedBooking_def newBooking_def)


lemma createBooking_success:
  assumes "fst (createBooking e bd db) = Inr r"
  shows "\<exists>v dur endT. findVehicleById (vehicles db) (bd_vehicleId bd) = Some v \<and> isActive v
           \<and> finalDuration bd = Inr dur \<and> finalEndTime bd dur = Inr (Some endT)
           \<and> findOverlappingBookings (bookings db) (bd_vehicleId bd) (bd_startTime bd) endT None = []
           \<and> r = Some (storedBooking e bd endT dur)
           \<and> snd (createBooking e bd db) = db\<lparr>bookings := bookings db @ [storedBooking e bd endT dur]\<rparr>"
  using assms unfolding createBooking_cases
  by (auto split: option.splits sum.splits if_splits)




lemma create_sample:
  assumes "d = None \<or> d = Some 0"
      and "findOverlappingBookings bs 1 7200000 9000000 None = []"
      and "i \<notin> set (map b_id bs)"
  shows "createBooking (sampleEnv i) (sampleRequest 7200000 d) (sampleDb bs) =
    (Inr (Some (storedBooking (sampleEnv i) (sampleRequest 7200000 d) 9000000 (1 / 2))),
     (sampleDb bs)\<lparr>bookings := bs @ [storedBooking (sampleEnv i) (sampleRequest 7200000 d) 9000000 (1 / 2)]\<rparr>)"
proof -
  have fd: "finalDuration (sampleRequest 7200000 d) = Inr (1 / 2)"
    using assms(1) finalDuration_sample by auto
  have m: "bd_vehicleId (sampleRequest 7200000 d) = 1" "bd_startTime (sampleRequest 7200000 d) = 7200000"
     "env_now (sampleEnv i) = 0" "env_newId (sampleEnv i) = i" "bookings (sampleDb bs) = bs"
    by (simp_all add: sampleRequest_def sampleEnv_def sampleDb_def)
  show ?thesis
    unfolding createBooking_cases findVehicle_sample
    using assms(2,3)
    by (simp add: isActive_truck fd finalEndTime_sample m validate_sample)
qed

lemma pairwiseDisjoint_snoc:
  "pairwiseDisjoint (xs @ [y]) =
     (pairwiseDisjoint xs \<and> list_all (\<lambda>x. \<not> intervalsOverlap x y) xs)"
  by (induction xs) auto

lemma findOverlapping_empty_iff:
  "findOverlappingBookings bs v s t None = [] \<longleftrightarrow>
     \<not> (\<exists>b. b \<in> set bs \<and> vehicleId b = v \<and> status b \<noteq> Cancelled \<and> status b \<noteq> Completed
            \<and> startTime b < t \<and> endTime b > s)"
  by (auto simp: findOverlappingBookings_def filter_empty_conv)

lemma noDoubleBooking_insert:
  assumes "findOverlappingBookings (bookings db) (vehicleId y) (startTime y) (endTime y) None = []"
      and "noDoubleBooking [Cancelled, Completed] w db"
  shows "noDoubleBooking [Cancelled, Completed] w (db\<lparr>bookings := bookings db @ [y]\<rparr>)"
proof -
  have "list_all (\<lambda>x. \<not> intervalsOverlap x y) (bookingsOutside [Cancelled, Completed] (vehicleId y) db)"
    using assms(1)[unfolded findOverlapping_empty_iff]
    by (auto simp: list_all_iff bookingsOutside_def intervalsOverlap_def)
  then show ?thesis
    using assms(2)
    by (auto simp: noDoubleBooking_def bookingsOutside_def pairwiseDisjoint_snoc)
qed

text \<open>
  C2, as the code has it. The conflict candidates of \<^verbatim>\<open>createBooking\<close> are exactly the
  existing bookings of the vehicle whose status is neither cancelled nor completed: once
  the vehicle is found active and the window \<open>[start, end)\<close> is resolved, the call fails with
  \<open>BookingConflict\<close> if and only if such a booking \<open>b\<close> has \<open>start b < end\<close> and
  \<open>end b > start\<close>. And a successful create keeps, for every vehicle, the bookings whose
  status is neither cancelled nor completed pairwise non-overlapping.
\<close>

theorem conflict_candidates:
  "(\<forall>v dur endT.
      findVehicleById (vehicles db) (bd_vehicleId bd) = Some v \<and> isActive v
      \<and> finalDuration bd = Inr dur \<and> finalEndTime bd dur = Inr (Some endT)
      \<longrightarrow> (fst (createBooking e bd db) = Inl BookingConflict
            \<longleftrightarrow> (\<exists>b. b \<in> set (bookings db) \<and> vehicleId b = bd_vehicleId bd
                      \<and> status b \<noteq> Cancelled \<and> status b \<noteq> Completed
                      \<and> startTime b < endT \<and> endTime b > bd_startTime bd)))
   \<and> (\<forall>r w. fst (createBooking e bd db) = Inr r \<and> noDoubleBooking [Cancelled, Completed] w db
      \<longrightarrow> noDoubleBooking [Cancelled, Completed] w (snd (createBooking e bd db)))"
proof (intro conjI allI impI)
  fix v dur endT
  assume a: "findVehicleById (vehicles db) (bd_vehicleId bd) = Some v \<and> isActive v
      \<and> finalDuration bd = Inr dur \<and> finalEndTime bd dur = Inr (Some endT)"
  show "fst (createBooking e bd db) = Inl BookingConflict
            \<longleftrightarrow> (\<exists>b. b \<in> set (bookings db) \<and> vehicleId b = bd_vehicleId bd
                      \<and> status b \<noteq> Cancelled \<and> status b \<noteq> Completed
                      \<and> startTime b < endT \<and> endTime b > bd_startTime bd)"
    unfolding createBooking_cases using a findOverlapping_empty_iff[of "bookings db" "bd_vehicleId bd" "bd_startTime bd" endT]
    by (auto split: if_splits)
next
  fix r w
  assume a: "fst (createBooking e bd db) = Inr r \<and> noDoubleBooking [Cancelled, Completed] w db"
  from createBooking_success[of e bd db r] a obtain dur endT where
    o: "findOverlappingBookings (bookings db) (bd_vehicleId bd) (bd_startTime bd) endT None = []"
    and s: "snd (createBooking e bd db) = db\<lparr>bookings := bookings db @ [storedBooking e bd endT dur]\<rparr>"
    by blast
  show "noDoubleBooking [Cancelled, Completed] w (snd (createBooking e bd db))"
    unfolding s using a
    by (intro noDoubleBooking_insert) (simp_all add: storedBooking_fields o)
qed


theorem conflict_candidates_witness:
  "findVehicleById (vehicles (sampleDb [sampleBooking 1 Confirmed 7200000 14400000]))
       (bd_vehicleId (sampleRequest 7200000 None)) = Some truck
   \<and> isActive truck
   \<and> finalDuration (sampleRequest 7200000 None) = Inr (1 / 2)
   \<and> finalEndTime (sampleRequest 7200000 None) (1 / 2) = Inr (Some 9000000)
   \<and> sampleBooking 1 Confirmed 7200000 14400000
        \<in> set (bookings (sampleDb [sampleBooking 1 Confirmed 7200000 14400000]))
   \<and> startTime (sampleBooking 1 Confirmed 7200000 14400000) < 9000000
   \<and> endTime (sampleBooking 1 Confirmed 7200000 14400000) > 7200000
   \<and> fst (createBooking (sampleEnv 2) (sampleRequest 7200000 None)
            (sampleDb [sampleBooking 1 Confirmed 7200000 14400000])) = Inl BookingConflict
   \<and> fst (createBooking (sampleEnv 2) (sampleRequest 7200000 None) (sampleDb []))
       = Inr (Some (storedBooking (sampleEnv 2) (sampleRequest 7200000 None) 9000000 (1 / 2)))
   \<and> noDoubleBooking [Cancelled, Completed] 1 (sampleDb [])
   \<and> noDoubleBooking [Cancelled, Completed] 1
        (snd (createBooking (sampleEnv 2) (sampleRequest 7200000 None) (sampleDb [])))"
proof -
  let ?old = "sampleBooking 1 Confirmed 7200000 14400000"
  let ?b = "storedBooking (sampleEnv 2) (sampleRequest 7200000 None) 9000000 (1 / 2)"
  note t1 = conflict_candidates[of "sampleDb [?old]" "sampleRequest 7200000 None" "sampleEnv 2"]
  note t2 = conflict_candidates[of "sampleDb []" "sampleRequest 7200000 None" "sampleEnv 2"]
  have m: "?old \<in> set (bookings (sampleDb [?old]))"
      "vehicleId ?old = bd_vehicleId (sampleRequest 7200000 None)"
      "status ?old \<noteq> Cancelled" "status ?old \<noteq> Completed"
      "startTime ?old < 9000000" "endTime ?old > bd_startTime (sampleRequest 7200000 None)"
      "endTime ?old > 7200000"
    by (simp_all add: sampleDb_def sampleBooking_def sampleRequest_def)
  have ex: "\<exists>b. b \<in> set (bookings (sampleDb [?old]))
              \<and> vehicleId b = bd_vehicleId (sampleRequest 7200000 None)
              \<and> status b \<noteq> Cancelled \<and> status b \<noteq> Completed
              \<and> startTime b < 9000000 \<and> endTime b > bd_startTime (sampleRequest 7200000 None)"
    using m by blast
  have conflict: "fst (createBooking (sampleEnv 2) (sampleRequest 7200000 None) (sampleDb [?old]))
                    = Inl BookingConflict"
    using t1 findVehicle_sample[of "[?old]" 7200000 None] isActive_truck
      finalDuration_sample(1)[of 7200000] finalEndTime_sample[of None] ex
    by blast
  have c: "createBooking (sampleEnv 2) (sampleRequest 7200000 None) (sampleDb []) =
     (Inr (Some ?b), (sampleDb [])\<lparr>bookings := [] @ [?b]\<rparr>)"
    by (rule create_sample) (simp_all add: overlap_sample)
  have f: "fst (createBooking (sampleEnv 2) (sampleRequest 7200000 None) (sampleDb [])) = Inr (Some ?b)"
    by (simp add: c)
  have i0: "noDoubleBooking [Cancelled, Completed] 1 (sampleDb [])"
    by (simp add: noDoubleBooking_def bookingsOutside_def sampleDb_def)
  have i1: "noDoubleBooking [Cancelled, Completed] 1
        (snd (createBooking (sampleEnv 2) (sampleRequest 7200000 None) (sampleDb [])))"
    using t2 f i0 by blast
  show ?thesis
    using findVehicle_sample[of "[?old]" 7200000 None] isActive_truck
      finalDuration_sample(1)[of 7200000] finalEndTime_sample[of None] m conflict f i0 i1
    by blast
qed

text \<open>
  C2, as stated, counts a completed booking as a conflict candidate. With a completed
  booking of the truck from 2 h to 4 h in the database, a request for the truck from 2 h
  to 2.5 h succeeds, and the bookings of the truck that are not cancelled then overlap.
\<close>

theorem completed_not_candidate_counterexample:
  "sampleBooking 1 Completed 7200000 14400000
        \<in> set (bookings (sampleDb [sampleBooking 1 Completed 7200000 14400000]))
   \<and> vehicleId (sampleBooking 1 Completed 7200000 14400000) = bd_vehicleId (sampleRequest 7200000 None)
   \<and> status (sampleBooking 1 Completed 7200000 14400000) \<noteq> Cancelled
   \<and> startTime (sampleBooking 1 Completed 7200000 14400000) < 9000000
   \<and> endTime (sampleBooking 1 Completed 7200000 14400000) > 7200000
   \<and> createBooking (sampleEnv 2) (sampleRequest 7200000 None)
            (sampleDb [sampleBooking 1 Completed 7200000 14400000])
       = (Inr (Some (storedBooking (sampleEnv 2) (sampleRequest 7200000 None) 9000000 (1 / 2))),
          sampleDb [sampleBooking 1 Completed 7200000 14400000,
                    storedBooking (sampleEnv 2) (sampleRequest 7200000 None) 9000000 (1 / 2)])
   \<and> \<not> noDoubleBooking [Cancelled] 1
          (sampleDb [sampleBooking 1 Completed 7200000 14400000,
                    storedBooking (sampleEnv 2) (sampleRequest 7200000 None) 9000000 (1 / 2)])"
proof -
  let ?old = "sampleBooking 1 Completed 7200000 14400000"
  let ?b = "storedBooking (sampleEnv 2) (sampleRequest 7200000 None) 9000000 (1 / 2)"
  have m: "?old \<in> set (bookings (sampleDb [?old]))"
      "vehicleId ?old = bd_vehicleId (sampleRequest 7200000 None)"
      "status ?old \<noteq> Cancelled"
      "startTime ?old < 9000000" "endTime ?old > 7200000"
    by (simp_all add: sampleDb_def sampleBooking_def sampleRequest_def)
  have c: "createBooking (sampleEnv 2) (sampleRequest 7200000 None) (sampleDb [?old]) =
     (Inr (Some ?b), (sampleDb [?old])\<lparr>bookings := [?old] @ [?b]\<rparr>)"
  proof (rule create_sample)
    show "None = None \<or> None = Some (0::rat)" by simp
    show "findOverlappingBookings [?old] 1 7200000 9000000 None = []"
      by (rule overlap_sample(2))
    show "2 \<notin> set (map b_id [?old])" by (simp add: sampleBooking_def)
  qed
  have d: "(sampleDb [?old])\<lparr>bookings := [?old] @ [?b]\<rparr> = sampleDb [?old, ?b]"
    by (simp add: sampleDb_def)
  have n: "\<not> noDoubleBooking [Cancelled] 1 (sampleDb [?old, ?b])"
    by (simp add: noDoubleBooking_def bookingsOutside_def sampleDb_def storedBooking_fields
        intervalsOverlap_def sampleRequest_def) (simp add: sampleBooking_def)
  show ?thesis
    using m c[unfolded d] n by blast
qed





subsection \<open>Searching for available vehicles\<close>

text \<open>The comparator orders by capacity, and by creation time backwards among equal
  capacities; the sort returns a list that is sorted for it, and a search that finds
  suitable vehicles reports their number.\<close>

lemma compareVehicles_total: "compareVehicles a b > 0 \<Longrightarrow> compareVehicles b a \<le> 0"
  by (auto simp: compareVehicles_def split: if_splits)

lemma compareVehicles_trans:
  "compareVehicles a b \<le> 0 \<Longrightarrow> compareVehicles b c \<le> 0 \<Longrightarrow> compareVehicles a c \<le> 0"
  by (auto simp: compareVehicles_def split: if_splits)

lemma compareVehicles_le_iff:
  "compareVehicles a b \<le> 0 \<longleftrightarrow>
     capacityKg a < capacityKg b \<or> (capacityKg a = capacityKg b \<and> v_createdAt b \<le> v_createdAt a)"
  by (auto simp: compareVehicles_def)

lemma set_insertBy: "set (insertBy cmp x ys) = insert x (set ys)"
  by (induction ys) auto

lemma sortedBy_insertBy:
  assumes tot: "\<And>a b. cmp a b > 0 \<Longrightarrow> cmp b a \<le> 0"
      and tr: "\<And>a b c. cmp a b \<le> 0 \<Longrightarrow> cmp b c \<le> 0 \<Longrightarrow> cmp a c \<le> 0"
  shows "sortedBy cmp ys \<Longrightarrow> sortedBy cmp (insertBy cmp x ys)"
proof (induction ys)
  case Nil
  then show ?case by simp
next
  case (Cons y ys)
  show ?case
  proof (cases "cmp x y \<le> 0")
    case True
    have "list_all (\<lambda>z. cmp x z \<le> 0) ys"
      using Cons.prems True tr by (auto simp: list_all_iff)
    with True Cons.prems show ?thesis by simp
  next
    case False
    then have "cmp y x \<le> 0" using tot[of x y] by simp
    with False Cons show ?thesis
      by (auto simp: list_all_iff set_insertBy)
  qed
qed

lemma sortedBy_sortBy:
  assumes "\<And>a b. cmp a b > 0 \<Longrightarrow> cmp b a \<le> 0"
      and "\<And>a b c. cmp a b \<le> 0 \<Longrightarrow> cmp b c \<le> 0 \<Longrightarrow> cmp a c \<le> 0"
  shows "sortedBy cmp (sortBy cmp xs)"
  unfolding sortBy_def
  by (induction xs) (simp_all add: sortedBy_insertBy[OF assms])

lemma length_insertBy: "length (insertBy cmp x ys) = Suc (length ys)"
  by (induction ys) auto

lemma findAvailable_sorted:
  assumes "findAvailableVehicles db sp = Inr r"
  shows "sortedBy compareVehicles (availableVehicles r)"
  using assms sortedBy_sortBy[of compareVehicles, OF compareVehicles_total compareVehicles_trans]
  unfolding findAvailableVehicles_def
  by (auto simp: Let_def split: sum.splits option.splits if_splits)

lemma findAvailable_totalSuitable:
  assumes "findAvailableVehicles db sp = Inr r"
      and "findSuitableVehicles (vehicles db) (sp_capacityRequired sp) (sp_vehicleType sp) \<noteq> []"
  shows "totalSuitable r =
           Some (length (findSuitableVehicles (vehicles db) (sp_capacityRequired sp) (sp_vehicleType sp)))"
  using assms unfolding findAvailableVehicles_def
  by (auto simp: Let_def split: sum.splits option.splits if_splits)

text \<open>
  C9. The list returned is sorted by ascending capacity, the most recently created first
  among equal capacities, and the result is to hold \<open>totalSuitable\<close>, the number of active
  vehicles that meet the capacity (and category) filter, also when that number is zero.
  The list is sorted (\<open>findAvailable_sorted\<close>) and the number is reported when it is not zero
  (\<open>findAvailable_totalSuitable\<close>). When no vehicle is suitable the code returns early with
  an object that has a message and neither \<open>totalAvailable\<close> nor \<open>totalSuitable\<close>: a search
  for 6000 kg in a fleet of one 5000 kg truck.
\<close>

theorem no_suitable_vehicle_omits_totalSuitable:
  "findSuitableVehicles (vehicles (sampleDb [])) (sp_capacityRequired (sampleSearch 6000))
      (sp_vehicleType (sampleSearch 6000)) = []
   \<and> findAvailableVehicles (sampleDb []) (sampleSearch 6000) =
       Inr \<lparr> availableVehicles = [],
             sr_estimatedRideDurationHours = 1 / 2,
             totalAvailable = None,
             totalSuitable = None,
             sr_endTime = Some 9000000,
             message = Some ''No vehicles found matching capacity requirements'' \<rparr>"
proof -
  have s: "findSuitableVehicles (vehicles (sampleDb [])) (sp_capacityRequired (sampleSearch 6000))
      (sp_vehicleType (sampleSearch 6000)) = []"
    by (simp add: findSuitableVehicles_def sampleDb_def sampleSearch_def truck_def)
  have p: "sp_fromPincode (sampleSearch 6000) = ''110001''"
      "sp_toPincode (sampleSearch 6000) = ''110025''"
      "sp_startTime (sampleSearch 6000) = 7200000"
    by (simp_all add: sampleSearch_def)
  show ?thesis
    by (simp add: findAvailableVehicles_def s p estimate_sample calculateEndTime_sample)
qed

subsection \<open>Concurrent creates\<close>

text \<open>A call that runs alone, its six steps one after the other, is \<^verbatim>\<open>createBooking\<close> as
  defined above.\<close>

lemma run_alone:
  "run [\<lparr> rq_env = e, rq_data = bd \<rparr>] [0, 0, 0, 0, 0, 0] db =
     ([Done (fst (createBooking e bd db))], snd (createBooking e bd db))"
proof -
  have nb: "vehicleId (newBooking (env_newId e) bd endT dur) = bd_vehicleId bd"
       "startTime (newBooking (env_newId e) bd endT dur) = bd_startTime bd"
       "endTime (newBooking (env_newId e) bd endT dur) = endT"
       "status (newBooking (env_newId e) bd endT dur) = Confirmed"
       "b_id (newBooking (env_newId e) bd endT dur) = env_newId e" for endT dur
    by (simp_all add: newBooking_def)
  have nn: "validateBooking (env_now e) b \<Longrightarrow> normalise b = b" for b
    by (rule normalise_valid)
  show ?thesis
    unfolding run_def createBooking_def
    by (auto simp: stepAt_def step_def save_def businessValidation_def Let_def nb nn
          findOverlapping_exclude
        split: option.splits sum.splits if_splits)
qed

lemma sample_fields:
  "bd_vehicleId (sampleRequest t d) = 1" "bd_startTime (sampleRequest t d) = t"
  "env_now (sampleEnv i) = 0" "env_newId (sampleEnv i) = i" "bookings (sampleDb bs) = bs"
  by (simp_all add: sampleRequest_def sampleEnv_def sampleDb_def)

lemma newBooking_fields:
  "vehicleId (newBooking i bd endT dur) = bd_vehicleId bd"
  "startTime (newBooking i bd endT dur) = bd_startTime bd"
  "endTime (newBooking i bd endT dur) = endT"
  "status (newBooking i bd endT dur) = Confirmed"
  "b_id (newBooking i bd endT dur) = i"
  by (simp_all add: newBooking_def)

lemma step_Start_sample:
  "step (sampleEnv i) (sampleRequest 7200000 None) Start (sampleDb bs) =
     (Checked (1 / 2) 9000000, sampleDb bs)"
  by (simp add: step_def findVehicle_sample isActive_truck finalDuration_sample
      finalEndTime_sample)

lemma step_Checked_sample:
  "step (sampleEnv i) (sampleRequest 7200000 None) (Checked (1 / 2) 9000000) (sampleDb bs) =
     (if findOverlappingBookings bs 1 7200000 9000000 None \<noteq> []
      then (Done (Inl BookingConflict), sampleDb bs)
      else (Saving (newBooking i (sampleRequest 7200000 None) 9000000 (1 / 2)), sampleDb bs))"
  by (simp add: step_def sample_fields validate_sample normalise_valid[OF validate_sample])

lemma step_Saving_sample:
  "step (sampleEnv i) (sampleRequest 7200000 None)
        (Saving (newBooking j (sampleRequest 7200000 None) 9000000 (1 / 2))) (sampleDb bs) =
     (HookVehicleOk (newBooking j (sampleRequest 7200000 None) 9000000 (1 / 2)), sampleDb bs)"
  using findVehicle_sample[of bs 7200000 None]
  by (simp add: step_def newBooking_fields isActive_truck)

lemma step_HookVehicleOk_sample:
  "step (sampleEnv i) (sampleRequest 7200000 None)
        (HookVehicleOk (newBooking j (sampleRequest 7200000 None) 9000000 (1 / 2))) (sampleDb bs) =
     (if findOverlappingBookings bs 1 7200000 9000000 (Some j) \<noteq> []
      then (Done (Inl ServerError), sampleDb bs)
      else (HookOk (newBooking j (sampleRequest 7200000 None) 9000000 (1 / 2)), sampleDb bs))"
  by (simp add: step_def newBooking_fields sample_fields)

lemma step_HookOk_sample:
  "step (sampleEnv i) (sampleRequest 7200000 None)
        (HookOk (newBooking i (sampleRequest 7200000 None) 9000000 (1 / 2))) (sampleDb bs) =
     (if i \<in> set (map b_id bs) then (Done (Inl ServerError), sampleDb bs)
      else (Inserted (newBooking i (sampleRequest 7200000 None) 9000000 (1 / 2)),
            sampleDb (bs @ [storedBooking (sampleEnv i) (sampleRequest 7200000 None) 9000000 (1 / 2)])))"
  by (simp add: step_def insertBooking_def newBooking_fields sample_fields storedBooking_def
      sampleDb_def)

lemma step_Inserted_sample:
  "step (sampleEnv i) (sampleRequest 7200000 None)
        (Inserted (newBooking j (sampleRequest 7200000 None) 9000000 (1 / 2))) (sampleDb bs) =
     (Done (Inr (findBookingById bs j)), sampleDb bs)"
  by (simp add: step_def newBooking_fields sample_fields)

lemma step_Done: "step e bd (Done r) db = (Done r, db)"
  by (simp add: step_def)

lemmas step_sample = step_Done step_Start_sample step_Checked_sample step_Saving_sample
  step_HookVehicleOk_sample step_HookOk_sample step_Inserted_sample

lemma overlap_stored:
  "findOverlappingBookings
     [storedBooking (sampleEnv 2) (sampleRequest 7200000 None) 9000000 (1 / 2)]
     (Suc 0) 7200000 9000000 None \<noteq> []"
  by (simp add: findOverlappingBookings_def storedBooking_fields sample_fields)

text \<open>When the second call starts after the first has settled, the first succeeds and the
  second fails with \<open>BookingConflict\<close>.\<close>

lemma sequential_creates_one_succeeds:
  "run raceRequests [0, 0, 0, 0, 0, 0, 1, 1, 1, 1, 1, 1] (sampleDb []) =
     ([Done (Inr (Some (storedBooking (sampleEnv 2) (sampleRequest 7200000 None) 9000000 (1 / 2)))),
       Done (Inl BookingConflict)],
      sampleDb [storedBooking (sampleEnv 2) (sampleRequest 7200000 None) 9000000 (1 / 2)])"
  by (simp add: run_def raceRequests_def stepAt_def step_sample overlap_sample(1) overlap_stored
        storedBooking_fields sample_fields findBookingById_def)

text \<open>
  C1. Of concurrent calls for one vehicle with overlapping windows exactly one is to
  succeed, the conflict check and the insert being one atomic unit. The code reads the
  overlapping bookings and inserts in separate awaited operations (in the service and
  again in the hook), with no transaction, lock or unique constraint between them. Two
  calls for the truck and the same window, whose operations alternate, both find no
  overlap before either inserts: both succeed, and the database then holds two confirmed
  bookings of the truck that overlap.
\<close>

theorem interleaved_creates_both_succeed:
  "run raceRequests [0, 1, 0, 1, 0, 1, 0, 1, 0, 1, 0, 1] (sampleDb []) =
     ([Done (Inr (Some (storedBooking (sampleEnv 2) (sampleRequest 7200000 None) 9000000 (1 / 2)))),
       Done (Inr (Some (storedBooking (sampleEnv 3) (sampleRequest 7200000 None) 9000000 (1 / 2))))],
      sampleDb [storedBooking (sampleEnv 2) (sampleRequest 7200000 None) 9000000 (1 / 2),
                storedBooking (sampleEnv 3) (sampleRequest 7200000 None) 9000000 (1 / 2)])
   \<and> intervalsOverlap
        (storedBooking (sampleEnv 2) (sampleRequest 7200000 None) 9000000 (1 / 2))
        (storedBooking (sampleEnv 3) (sampleRequest 7200000 None) 9000000 (1 / 2))
   \<and> \<not> noDoubleBooking [Cancelled, Completed] 1
        (sampleDb [storedBooking (sampleEnv 2) (sampleRequest 7200000 None) 9000000 (1 / 2),
                   storedBooking (sampleEnv 3) (sampleRequest 7200000 None) 9000000 (1 / 2)])"
proof -
  let ?b2 = "storedBooking (sampleEnv 2) (sampleRequest 7200000 None) 9000000 (1 / 2)"
  let ?b3 = "storedBooking (sampleEnv 3) (sampleRequest 7200000 None) 9000000 (1 / 2)"
  have r: "run raceRequests [0, 1, 0, 1, 0, 1, 0, 1, 0, 1, 0, 1] (sampleDb []) =
     ([Done (Inr (Some ?b2)), Done (Inr (Some ?b3))], sampleDb [?b2, ?b3])"
    by (simp add: run_def raceRequests_def stepAt_def step_sample overlap_sample(1)
        storedBooking_fields sample_fields findBookingById_def)
  have o: "intervalsOverlap ?b2 ?b3"
    by (simp add: intervalsOverlap_def storedBooking_fields sample_fields)
  have n: "\<not> noDoubleBooking [Cancelled, Completed] 1 (sampleDb [?b2, ?b3])"
    using o by (simp add: noDoubleBooking_def bookingsOutside_def storedBooking_fields
        sample_fields)
  show ?thesis using r o n by blast
qed

end
